theory Spec2Isabelle
  imports Main
begin

section \<open>Python values used by main\_rag\_app.py\<close>

text \<open>
  Strings are byte lists. The helpers below are the fragments of Python's \<open>str\<close>,
  \<open>os\<close> and \<open>os.path\<close> that the module calls.
\<close>

text \<open>Truth value of an \<open>Optional[str]\<close>: \<open>None\<close> and the empty string are falsy.\<close>

definition truthy :: "string option \<Rightarrow> bool" where
  "truthy v = (case v of None \<Rightarrow> False | Some s \<Rightarrow> s \<noteq> [])"

text \<open>\<open>os.getenv(key)\<close> and \<open>os.getenv(key, default)\<close> over the process environment.\<close>

type_synonym environ = "string \<rightharpoonup> string"

definition getenv :: "environ \<Rightarrow> string \<Rightarrow> string option" where
  "getenv env k = env k"

definition getenv_default :: "environ \<Rightarrow> string \<Rightarrow> string \<Rightarrow> string" where
  "getenv_default env k d = (case env k of None \<Rightarrow> d | Some v \<Rightarrow> v)"

text \<open>\<open>s.startswith(p)\<close>.\<close>

definition startswith :: "string \<Rightarrow> string \<Rightarrow> bool" where
  "startswith s p = (take (length p) s = p)"

text \<open>\<open>s.lower()\<close> on ASCII letters; other bytes are kept.\<close>

definition lower_char :: "char \<Rightarrow> char" where
  "lower_char c =
     (case map_of (zip ''ABCDEFGHIJKLMNOPQRSTUVWXYZ'' ''abcdefghijklmnopqrstuvwxyz'') c of
        None \<Rightarrow> c | Some d \<Rightarrow> d)"

definition lower :: "string \<Rightarrow> string" where
  "lower s = map lower_char s"

text \<open>\<open>s.replace(a, b)\<close> for single characters \<open>a\<close> and \<open>b\<close>.\<close>

definition replace :: "char \<Rightarrow> char \<Rightarrow> string \<Rightarrow> string" where
  "replace a b s = map (\<lambda>c. if c = a then b else c) s"

text \<open>\<open>str(n)\<close> for a natural number, as an f-string prints \<open>len(xs)\<close>.\<close>

definition digit :: "nat \<Rightarrow> char" where
  "digit n = ''0123456789'' ! n"

fun str_nat :: "nat \<Rightarrow> string" where
  "str_nat n = (if n < 10 then [digit n] else str_nat (n div 10) @ [digit (n mod 10)])"

declare str_nat.simps [simp del]

text \<open>\<open>os.path.join(a, b)\<close> on a POSIX system.\<close>

definition path_join :: "string \<Rightarrow> string \<Rightarrow> string" where
  "path_join a b =
     (if startswith b ''/'' then b
      else if a = [] \<or> last a = CHR ''/'' then a @ b
      else a @ ''/'' @ b)"

text \<open>A string between single quotes, as \<open>'{x}'\<close> in an f-string.\<close>

definition quoted :: "string \<Rightarrow> string" where
  "quoted s = [CHR 0x27] @ s @ [CHR 0x27]"

text \<open>
  Exceptions. \<open>ValueError\<close> and \<open>Exception\<close> stand for the classes below
  \<open>Exception\<close>; \<open>CancelledError\<close> (Python 3.8 and later) and \<open>GeneratorExit\<close> derive
  from \<open>BaseException\<close> only, so \<open>except Exception\<close> does not catch them.
\<close>

datatype py_exception =
    ValueError string
  | Exception string
  | CancelledError
  | GeneratorExit

fun isinstance_Exception :: "py_exception \<Rightarrow> bool" where
  "isinstance_Exception (ValueError m) = True"
| "isinstance_Exception (Exception m) = True"
| "isinstance_Exception CancelledError = False"
| "isinstance_Exception GeneratorExit = False"

fun str_exception :: "py_exception \<Rightarrow> string" where
  "str_exception (ValueError m) = m"
| "str_exception (Exception m) = m"
| "str_exception CancelledError = []"
| "str_exception GeneratorExit = []"

text \<open>A keyword argument of a call: left out, or passed (possibly as \<open>None\<close>).\<close>

datatype 'a kwarg = Omitted | Passed 'a

fun bind_kwarg :: "'a \<Rightarrow> 'a kwarg \<Rightarrow> 'a" where
  "bind_kwarg d Omitted = d"
| "bind_kwarg d (Passed v) = v"

text \<open>
  Python values, for response bodies and stream fragments: the JSON values (floats are
  left out), and \<open>PyObject t\<close> for an object of a type \<open>t\<close> that \<open>json.dumps\<close> has no
  encoding for.
\<close>

datatype json =
    JNull
  | JBool bool
  | JInt int
  | JStr string
  | JList "json list"
  | JDict "(string \<times> json) list"
  | PyObject string

section \<open>Data model\<close>

text \<open>
  Modelled from the spec: the class \<open>EnhancedRAG\<close> (rag.py) is not among the sources.
  Its constructor is taken to store its keyword arguments in attributes of the same
  names, which are the attributes main\_rag\_app.py reads and assigns; the shared
  \<open>r2_storage_client\<close> is the module's single storage client and is left out. As the
  spec says, construction does no more than take the configuration.
\<close>

record EnhancedRAG =
  gpt_id :: string
  openai_api_key :: string
  default_llm_model_name :: string
  qdrant_url :: string
  qdrant_api_key :: "string option"
  temp_processing_path :: string
  default_system_prompt :: "string option"
  default_use_hybrid_search :: "bool option"

text \<open>
  Calls made on an engine handle, in the order they are made. The handle is the
  address of the \<open>EnhancedRAG\<close> object.
\<close>

datatype engine_call =
    update_knowledge_base_from_r2 nat "string list"
  | update_user_documents_from_r2 nat string "string list"
  | clear_all_context nat

text \<open>
  The engine is outside the sources: what a call does is a parameter, \<open>None\<close> when
  the call returns and \<open>Some m\<close> when it raises an \<open>Exception\<close> whose \<open>str\<close> is \<open>m\<close>.
\<close>

type_synonym engine = "engine_call \<Rightarrow> string option"

text \<open>
  The local disk, as far as its content is concerned: what there is at a path. What
  \<open>os.path.exists\<close> and \<open>shutil.rmtree\<close> do with it is a parameter of the endpoint that
  calls them.
\<close>

datatype fs_entry = Directory | RegularFile | SymbolicLink string

type_synonym disk = "string \<rightharpoonup> fs_entry"

text \<open>
  The state of the process: the module-level dictionary \<open>active_rag_sessions\<close> (a
  tenant key to a reference), the objects the references point to (\<open>heap\<close>: every
  \<open>EnhancedRAG\<close> ever constructed, at the address that is its index), the calls made
  on engines, the local disk, and what the background tasks have printed.
\<close>

record app_state =
  active_rag_sessions :: "string \<rightharpoonup> nat"
  heap :: "EnhancedRAG list"
  engine_calls :: "engine_call list"
  local_fs :: disk
  stdout :: "string list"

definition print :: "app_state \<Rightarrow> string \<Rightarrow> app_state" where
  "print st line = st\<lparr>stdout := stdout st @ [line]\<rparr>"

text \<open>Module constants, read from the environment when the module is loaded.\<close>

definition LOCAL_DATA_BASE_PATH :: "environ \<Rightarrow> string" where
  "LOCAL_DATA_BASE_PATH env = getenv_default env ''LOCAL_DATA_PATH'' ''local_rag_data''"

definition TEMP_DOWNLOAD_PATH :: "environ \<Rightarrow> string" where
  "TEMP_DOWNLOAD_PATH env = path_join (LOCAL_DATA_BASE_PATH env) ''temp_downloads''"

definition LOCAL_KB_INDEX_PATH_TEMPLATE :: "environ \<Rightarrow> string" where
  "LOCAL_KB_INDEX_PATH_TEMPLATE env =
     path_join (path_join (LOCAL_DATA_BASE_PATH env) ''kb_indexes'') ''{gpt_id}''"

section \<open>Naming scheme\<close>

definition get_session_id :: "string \<Rightarrow> string \<Rightarrow> string" where
  "get_session_id u_email g_id =
     (let email_part = replace (CHR ''.'') (CHR ''_'') (replace (CHR ''@'') (CHR ''_'') u_email)
      in ''user_'' @ email_part @ ''_gpt_'' @ g_id)"

section \<open>Session registry\<close>

text \<open>
  \<open>get_or_create_rag_instance\<close>. The body runs under \<open>sessions_lock\<close> and holds no
  \<open>await\<close>, so it is one atomic step on the state. The keyword arguments are bound to
  the defaults of the signature: \<open>gpt_name = "default_gpt"\<close>, \<open>default_model = None\<close>,
  \<open>default_system_prompt = None\<close>, \<open>default_use_hybrid_search = False\<close>. The result is
  the exception raised or the reference returned, with the state after the call.
\<close>

definition new_EnhancedRAG ::
  "environ \<Rightarrow> string \<Rightarrow> string \<Rightarrow> string \<Rightarrow> string option \<Rightarrow> string option \<Rightarrow> bool option
     \<Rightarrow> EnhancedRAG" where
  "new_EnhancedRAG env g_id api_key q_url d_model d_prompt d_hybrid =
     \<lparr> gpt_id = g_id,
       openai_api_key = api_key,
       default_llm_model_name =
         (if truthy d_model then (case d_model of Some m \<Rightarrow> m | None \<Rightarrow> [])
          else getenv_default env ''DEFAULT_OPENAI_MODEL'' ''gpt-4o''),
       qdrant_url = q_url,
       qdrant_api_key = getenv env ''QDRANT_API_KEY'',
       temp_processing_path = TEMP_DOWNLOAD_PATH env,
       default_system_prompt = d_prompt,
       default_use_hybrid_search = d_hybrid \<rparr>"

definition update_defaults ::
  "string option \<Rightarrow> string option \<Rightarrow> bool option \<Rightarrow> EnhancedRAG \<Rightarrow> EnhancedRAG" where
  "update_defaults d_model d_prompt d_hybrid rag_instance =
     (let r1 = (case d_model of
                  Some m \<Rightarrow> if m \<noteq> [] then rag_instance\<lparr>default_llm_model_name := m\<rparr>
                            else rag_instance
                | None \<Rightarrow> rag_instance);
          r2 = (case d_prompt of
                  Some p \<Rightarrow> if p \<noteq> [] then r1\<lparr>default_system_prompt := Some p\<rparr> else r1
                | None \<Rightarrow> r1);
          r3 = (case d_hybrid of
                  Some b \<Rightarrow> r2\<lparr>default_use_hybrid_search := Some b\<rparr>
                | None \<Rightarrow> r2)
      in r3)"

definition get_or_create_rag_instance ::
  "environ \<Rightarrow> app_state \<Rightarrow> string \<Rightarrow> string \<Rightarrow> string option kwarg \<Rightarrow> string option kwarg
     \<Rightarrow> string option kwarg \<Rightarrow> bool option kwarg \<Rightarrow> (py_exception + nat) \<times> app_state" where
  "get_or_create_rag_instance env st u_email g_id kw_gpt_name kw_default_model
       kw_default_system_prompt kw_default_use_hybrid_search =
     (let d_model = bind_kwarg None kw_default_model;
          d_prompt = bind_kwarg None kw_default_system_prompt;
          d_hybrid = bind_kwarg (Some False) kw_default_use_hybrid_search
      in case active_rag_sessions st g_id of
           None \<Rightarrow>
             (case getenv env ''OPENAI_API_KEY'' of
                None \<Rightarrow> (Inl (ValueError ''OPENAI_API_KEY not set in environment.''), st)
              | Some api_key \<Rightarrow>
                  if api_key = [] then
                    (Inl (ValueError ''OPENAI_API_KEY not set in environment.''), st)
                  else
                    (case getenv env ''QDRANT_URL'' of
                       None \<Rightarrow> (Inl (ValueError ''QDRANT_URL not set in environment.''), st)
                     | Some q_url \<Rightarrow>
                         if q_url = [] then
                           (Inl (ValueError ''QDRANT_URL not set in environment.''), st)
                         else
                           (let h = length (heap st);
                                obj = new_EnhancedRAG env g_id api_key q_url d_model d_prompt d_hybrid
                            in (Inr h,
                                st\<lparr>heap := heap st @ [obj],
                                   active_rag_sessions := (active_rag_sessions st)(g_id \<mapsto> h)\<rparr>))))
         | Some h \<Rightarrow>
             (Inr h, st\<lparr>heap := (heap st)[h := update_defaults d_model d_prompt d_hybrid (heap st ! h)]\<rparr>))"

text \<open>
  A state is well formed when every reference of the registry points into the heap;
  the empty state is, and every operation keeps it so.
\<close>

definition wf_state :: "app_state \<Rightarrow> bool" where
  "wf_state st = (\<forall>g h. active_rag_sessions st g = Some h \<longrightarrow> h < length (heap st))"

definition initial_state :: app_state where
  "initial_state =
     \<lparr> active_rag_sessions = Map.empty, heap = [], engine_calls = [], local_fs = Map.empty,
       stdout = [] \<rparr>"

section \<open>Storage client and uploads\<close>

text \<open>
  The storage client (storage.py) is outside the sources; its two methods are
  parameters. \<open>upload_file(file_data, filename, is_user_doc)\<close> raises (\<open>Inl\<close>, with the
  \<open>str\<close> of the exception) or returns a pair \<open>(success, r2_path_or_error)\<close>;
  \<open>download_file_from_url(url)\<close> returns such a pair.
\<close>

type_synonym r2_upload = "string \<Rightarrow> string \<Rightarrow> bool \<Rightarrow> string + (bool \<times> string)"

type_synonym r2_download = "string \<Rightarrow> bool \<times> string"

text \<open>
  An uploaded file: its name and what \<open>await file.read()\<close> gives, the \<open>str\<close> of the
  exception raised (\<open>Inl\<close>) or the content.
\<close>

record UploadFile =
  upload_filename :: string
  upload_read :: "string + string"

record FileUploadInfoResponse =
  filename :: string
  stored_url_or_key :: string
  status :: string
  error_message :: "string option"

definition model_dump :: "FileUploadInfoResponse \<Rightarrow> json" where
  "model_dump r =
     JDict [(''filename'', JStr (filename r)),
            (''stored_url_or_key'', JStr (stored_url_or_key r)),
            (''status'', JStr (status r)),
            (''error_message'', (case error_message r of None \<Rightarrow> JNull | Some m \<Rightarrow> JStr m))]"

definition upload_failure :: "string \<Rightarrow> string \<Rightarrow> FileUploadInfoResponse" where
  "upload_failure name err =
     \<lparr> filename = name, stored_url_or_key = [], status = ''failure'', error_message = Some err \<rparr>"

definition process_uploaded_file_to_r2 ::
  "r2_upload \<Rightarrow> UploadFile \<Rightarrow> bool \<Rightarrow> FileUploadInfoResponse" where
  "process_uploaded_file_to_r2 upload_file file is_user_doc =
     (case upload_read file of
        Inl e \<Rightarrow> upload_failure (upload_filename file) e
      | Inr file_content \<Rightarrow>
          (case upload_file file_content (upload_filename file) is_user_doc of
             Inl e \<Rightarrow> upload_failure (upload_filename file) e
           | Inr (success, r2_path_or_error) \<Rightarrow>
               if success then
                 \<lparr> filename = upload_filename file, stored_url_or_key = r2_path_or_error,
                   status = ''success'', error_message = None \<rparr>
               else upload_failure (upload_filename file) r2_path_or_error))"

text \<open>
  The loop over the uploaded files, which \<open>upload_documents_endpoint\<close> and
  \<open>upload_chat_files_endpoint\<close> both run: every result is kept, and the location of a
  result joins the list to index when its status is \<open>"success"\<close> and the location is not
  empty.
\<close>

fun store_files_loop ::
  "r2_upload \<Rightarrow> bool \<Rightarrow> UploadFile list \<Rightarrow> FileUploadInfoResponse list \<times> string list
     \<Rightarrow> FileUploadInfoResponse list \<times> string list" where
  "store_files_loop upload_file is_user_doc [] acc = acc"
| "store_files_loop upload_file is_user_doc (file_upload # files) (processing_results, keys) =
     (let result = process_uploaded_file_to_r2 upload_file file_upload is_user_doc
      in store_files_loop upload_file is_user_doc files
           (processing_results @ [result],
            if status result = ''success'' \<and> stored_url_or_key result \<noteq> []
            then keys @ [stored_url_or_key result] else keys))"

section \<open>Ingestion\<close>

record JSONResponse =
  status_code :: nat
  content :: json

text \<open>A method call on an engine handle: the call is logged, its outcome is the engine's.\<close>

definition call_engine :: "engine \<Rightarrow> app_state \<Rightarrow> engine_call \<Rightarrow> string option \<times> app_state" where
  "call_engine eng st c = (eng c, st\<lparr>engine_calls := engine_calls st @ [c]\<rparr>)"

text \<open>
  The loop of \<open>_process_kb_urls_task\<close> (in \<open>setup_gpt_context_endpoint\<close>) over the
  URLs: the locations collected so far and the lines printed so far.
\<close>

definition valid_kb_url :: "string \<Rightarrow> bool" where
  "valid_kb_url url = (startswith url ''http://'' \<or> startswith url ''https://'')"

fun kb_urls_loop ::
  "r2_download \<Rightarrow> string list \<Rightarrow> string list \<times> string list \<Rightarrow> string list \<times> string list" where
  "kb_urls_loop download_file_from_url [] acc = acc"
| "kb_urls_loop download_file_from_url (url # urls) (keys, out) =
     (if \<not> valid_kb_url url then
        kb_urls_loop download_file_from_url urls (keys, out @ [''Skipping invalid KB URL: '' @ url])
      else
        (case download_file_from_url url of
           (success, r2_path) \<Rightarrow>
             if success then
               kb_urls_loop download_file_from_url urls
                 (keys @ [r2_path],
                  out @ [''KB URL '' @ quoted url @ '' processed to R2: '' @ r2_path])
             else
               kb_urls_loop download_file_from_url urls
                 (keys,
                  out @ [''Failed to process KB URL '' @ quoted url @ ''. Error: '' @ r2_path])))"

text \<open>
  The background task \<open>_process_kb_urls_task(urls, rag)\<close>. It returns nothing; what it
  leaves behind is the calls on the engine and the printed lines.
\<close>

definition process_kb_urls_task ::
  "r2_download \<Rightarrow> engine \<Rightarrow> app_state \<Rightarrow> string list \<Rightarrow> nat \<Rightarrow> app_state" where
  "process_kb_urls_task download_file_from_url eng st urls rag =
     (let st1 = print st (''BG Task: Processing '' @ str_nat (length urls)
                  @ '' KB URLs for gpt_id '' @ quoted (gpt_id (heap st ! rag)) @ ''...'');
          (keys, out) = kb_urls_loop download_file_from_url urls ([], []);
          st2 = st1\<lparr>stdout := stdout st1 @ out\<rparr>
      in if keys \<noteq> [] then
           (case call_engine eng st2 (update_knowledge_base_from_r2 rag keys) of
              (None, st3) \<Rightarrow> st3
            | (Some e, st3) \<Rightarrow>
                print st3 (''Error indexing KB documents for gpt_id ''
                  @ quoted (gpt_id (heap st3 ! rag)) @ '': '' @ e))
         else st2)"

record GptContextSetupRequest =
  req_user_email :: string
  req_gpt_id :: string
  req_gpt_name :: "string option"
  kb_document_urls :: "string list option"
  req_default_model :: "string option"
  req_default_system_prompt :: "string option"
  req_default_use_hybrid_search :: "bool option"

text \<open>
  \<open>setup_gpt_context_endpoint\<close>. The background task runs once the response is made;
  the state returned is the one after the task.
\<close>

definition setup_gpt_context_endpoint ::
  "environ \<Rightarrow> r2_download \<Rightarrow> engine \<Rightarrow> app_state \<Rightarrow> GptContextSetupRequest
     \<Rightarrow> (py_exception + JSONResponse) \<times> app_state" where
  "setup_gpt_context_endpoint env download_file_from_url eng st request =
     (case get_or_create_rag_instance env st (req_user_email request) (req_gpt_id request)
             (Passed (req_gpt_name request)) (Passed (req_default_model request))
             (Passed (req_default_system_prompt request))
             (Passed (req_default_use_hybrid_search request)) of
        (Inl e, st1) \<Rightarrow> (Inl e, st1)
      | (Inr rag_instance, st1) \<Rightarrow>
          (case kb_document_urls request of
             Some (u # us) \<Rightarrow>
               (Inr \<lparr> status_code = 202,
                      content = JDict
                        [(''message'', JStr (''KB processing for gpt_id '' @ quoted (req_gpt_id request)
                            @ '' initiated for '' @ str_nat (length (u # us)) @ '' URLs.'')),
                         (''gpt_id'', JStr (req_gpt_id request))] \<rparr>,
                process_kb_urls_task download_file_from_url eng st1 (u # us) rag_instance)
           | _ \<Rightarrow>
               (Inr \<lparr> status_code = 200,
                      content = JDict
                        [(''message'', JStr (''No KB URLs provided. RAG instance for gpt_id ''
                            @ quoted (req_gpt_id request) @ '' is ready.'')),
                         (''gpt_id'', JStr (req_gpt_id request))] \<rparr>,
                st1)))"

text \<open>The background task \<open>_index_documents_task\<close> of \<open>upload_documents_endpoint\<close>.\<close>

definition doc_type :: "bool \<Rightarrow> string" where
  "doc_type is_user_specific = (if is_user_specific then ''user-specific'' else ''knowledge base'')"

definition index_documents_task ::
  "engine \<Rightarrow> app_state \<Rightarrow> nat \<Rightarrow> string list \<Rightarrow> bool \<Rightarrow> string \<Rightarrow> string \<Rightarrow> app_state" where
  "index_documents_task eng st rag keys_or_urls is_user_specific u_email g_id =
     (let s_id = get_session_id u_email g_id;
          st1 = print st (''BG Task: Indexing '' @ str_nat (length keys_or_urls) @ '' ''
                  @ doc_type is_user_specific @ '' documents for gpt_id ''
                  @ quoted (gpt_id (heap st ! rag)) @ '' (session '' @ quoted s_id @ '')...'');
          c = (if is_user_specific then update_user_documents_from_r2 rag s_id keys_or_urls
               else update_knowledge_base_from_r2 rag keys_or_urls)
      in case call_engine eng st1 c of
           (None, st2) \<Rightarrow>
             print st2 (''BG Task: Indexing complete for '' @ doc_type is_user_specific
               @ '' documents.'')
         | (Some e, st2) \<Rightarrow>
             print st2 (''BG Task: Error indexing '' @ doc_type is_user_specific
               @ '' documents for gpt_id '' @ quoted (gpt_id (heap st2 ! rag)) @ '': '' @ e))"

definition upload_documents_endpoint ::
  "environ \<Rightarrow> r2_upload \<Rightarrow> engine \<Rightarrow> app_state \<Rightarrow> UploadFile list \<Rightarrow> string \<Rightarrow> string \<Rightarrow> string
     \<Rightarrow> (py_exception + JSONResponse) \<times> app_state" where
  "upload_documents_endpoint env upload_file eng st files u_email g_id is_user_document =
     (let is_user_doc_bool = (lower is_user_document = ''true'');
          (processing_results, keys) = store_files_loop upload_file is_user_doc_bool files ([], [])
      in if keys = [] then
           (Inr \<lparr> status_code = 400,
                  content = JDict
                    [(''message'', JStr ''No files were successfully uploaded to R2.''),
                     (''upload_results'', JList (map model_dump processing_results))] \<rparr>,
            st)
         else
           (case get_or_create_rag_instance env st u_email g_id Omitted Omitted Omitted Omitted of
              (Inl e, st1) \<Rightarrow> (Inl e, st1)
            | (Inr rag_instance, st1) \<Rightarrow>
                (Inr \<lparr> status_code = 202,
                       content = JDict
                         [(''message'', JStr (str_nat (length keys) @ '' files accepted for ''
                             @ doc_type is_user_doc_bool
                             @ '' indexing. Processing in background.'')),
                          (''upload_results'', JList (map model_dump processing_results))] \<rparr>,
                 index_documents_task eng st1 rag_instance keys is_user_doc_bool u_email g_id)))"

text \<open>
  \<open>upload_chat_files_endpoint\<close>: the files are stored, the session is resolved, and the
  index update is awaited before the response is made. The form fields
  \<open>collection_name\<close>, \<open>use_hybrid_search\<close> and \<open>optimize_pdfs\<close> are read and not used.
\<close>

definition chat_files_response :: "bool \<Rightarrow> string \<Rightarrow> string list \<Rightarrow> bool \<Rightarrow> JSONResponse" where
  "chat_files_response ok msg file_urls in_progress =
     \<lparr> status_code = 200,
       content = JDict
         [(''success'', JBool ok),
          (''message'', JStr msg),
          (''file_urls'', JList (map JStr file_urls)),
          (''processing'', JBool in_progress)] \<rparr>"

definition upload_chat_files_endpoint ::
  "environ \<Rightarrow> r2_upload \<Rightarrow> engine \<Rightarrow> app_state \<Rightarrow> UploadFile list \<Rightarrow> string \<Rightarrow> string \<Rightarrow> string
     \<Rightarrow> string \<Rightarrow> (py_exception + JSONResponse) \<times> app_state" where
  "upload_chat_files_endpoint env upload_file eng st files u_email g_id g_name is_user_document =
     (let is_user_doc_bool = (lower is_user_document = ''true'');
          (processing_results, file_urls) =
             store_files_loop upload_file is_user_doc_bool files ([], [])
      in case get_or_create_rag_instance env st u_email g_id (Passed (Some g_name))
                Omitted Omitted Omitted of
           (Inl e, st1) \<Rightarrow> (Inl e, st1)
         | (Inr rag_instance, st1) \<Rightarrow>
             if file_urls \<noteq> [] then
               (let session_id = get_session_id u_email g_id;
                    c = (if is_user_doc_bool
                         then update_user_documents_from_r2 rag_instance session_id file_urls
                         else update_knowledge_base_from_r2 rag_instance file_urls)
                in case call_engine eng st1 c of
                     (Some e, st2) \<Rightarrow>
                       (Inr (chat_files_response False
                               (''Failed to index '' @ str_nat (length file_urls) @ '' files: '' @ e)
                               file_urls False),
                        st2)
                   | (None, st2) \<Rightarrow>
                       (Inr (chat_files_response True
                               (''Processed and indexed '' @ str_nat (length file_urls) @ '' files'')
                               file_urls (length file_urls > 0)),
                        st2))
             else
               (Inr (chat_files_response True
                       (''Processed and indexed '' @ str_nat (length file_urls) @ '' files'')
                       file_urls (length file_urls > 0)),
                st1))"

section \<open>Streaming\<close>

text \<open>
  The generator \<open>generate\<close> of \<open>chat_stream\<close>. \<open>json.dumps\<close> is a parameter: it returns
  the text (\<open>Inr\<close>) or raises an \<open>Exception\<close>, given by its \<open>str\<close> (\<open>Inl\<close>); it is called
  inside the \<open>try\<close>, for every fragment, and again by the handler for the error chunk.
  The engine's \<open>query_stream\<close> is given by what it delivers: a finite list of fragments,
  then the end of the iteration or an exception. The consumer is given by the number of
  frames it takes before it disconnects (\<open>None\<close>: it never does); the disconnection
  reaches the generator as a \<open>CancelledError\<close> at the suspension point where the next
  fragment is awaited. The result is the frames yielded, the values whose encodings
  they carry, the fragments taken from the engine, and how the generator ended.
\<close>

type_synonym json_dumps = "json \<Rightarrow> string + string"

datatype stream_end = StopAsyncIteration | Raise py_exception

datatype terminal = Completed | ErrorFrame | Unhandled py_exception

record stream_run =
  frames :: "string list"
  emitted :: "json list"
  consumed :: "json list"
  terminal :: terminal

definition sse_frame :: "string \<Rightarrow> string" where
  "sse_frame encoded = ''data: '' @ encoded @ [CHR 0x0A, CHR 0x0A]"

definition error_chunk :: "string \<Rightarrow> json" where
  "error_chunk m = JDict [(''type'', JStr ''error''), (''data'', JDict [(''error'', JStr m)])]"

text \<open>
  The clause \<open>except Exception as e\<close>: other exceptions leave the generator, and so
  does an exception that \<open>json.dumps\<close> raises inside the clause.
\<close>

definition except_clause ::
  "json_dumps \<Rightarrow> string list \<Rightarrow> json list \<Rightarrow> json list \<Rightarrow> py_exception \<Rightarrow> stream_run" where
  "except_clause dumps out sent taken e =
     (if isinstance_Exception e then
        (case dumps (error_chunk (str_exception e)) of
           Inr encoded \<Rightarrow>
             \<lparr> frames = out @ [sse_frame encoded],
               emitted = sent @ [error_chunk (str_exception e)],
               consumed = taken, terminal = ErrorFrame \<rparr>
         | Inl m \<Rightarrow>
             \<lparr> frames = out, emitted = sent, consumed = taken,
               terminal = Unhandled (Exception m) \<rparr>)
      else \<lparr> frames = out, emitted = sent, consumed = taken, terminal = Unhandled e \<rparr>)"

fun generate_loop ::
  "json_dumps \<Rightarrow> nat option \<Rightarrow> json list \<Rightarrow> stream_end \<Rightarrow> string list \<Rightarrow> json list
     \<Rightarrow> json list \<Rightarrow> stream_run" where
  "generate_loop dumps disconnect [] fin out sent taken =
     (if disconnect = Some (length out) then except_clause dumps out sent taken CancelledError
      else (case fin of
              StopAsyncIteration \<Rightarrow>
                \<lparr> frames = out, emitted = sent, consumed = taken, terminal = Completed \<rparr>
            | Raise e \<Rightarrow> except_clause dumps out sent taken e))"
| "generate_loop dumps disconnect (chunk # rest) fin out sent taken =
     (if disconnect = Some (length out) then except_clause dumps out sent taken CancelledError
      else (case dumps chunk of
              Inl m \<Rightarrow> except_clause dumps out sent (taken @ [chunk]) (Exception m)
            | Inr encoded \<Rightarrow>
                generate_loop dumps disconnect rest fin
                  (out @ [sse_frame encoded]) (sent @ [chunk]) (taken @ [chunk])))"

definition generate :: "json_dumps \<Rightarrow> nat option \<Rightarrow> json list \<Rightarrow> stream_end \<Rightarrow> stream_run" where
  "generate dumps disconnect chunks fin = generate_loop dumps disconnect chunks fin [] [] []"

section \<open>Reset\<close>

text \<open>
  The three calls of the purge are outside the sources and are parameters:
  \<open>template.format(gpt_id=g)\<close> returns the path or raises; \<open>os.path.exists\<close> answers
  for a path on a disk; \<open>shutil.rmtree\<close> returns the disk without the tree, or raises
  and leaves a disk behind. An exception is given by its \<open>str\<close>.
\<close>

record os_calls =
  str_format :: "string \<Rightarrow> string \<Rightarrow> string + string"
  os_path_exists :: "disk \<Rightarrow> string \<Rightarrow> bool"
  shutil_rmtree :: "disk \<Rightarrow> string \<Rightarrow> (string \<times> disk) + disk"

definition reset_error :: "string \<Rightarrow> JSONResponse" where
  "reset_error m =
     \<lparr> status_code = 500,
       content = JDict [(''status'', JStr ''error''), (''message'', JStr m)] \<rparr>"

definition reset_success :: "string \<Rightarrow> JSONResponse" where
  "reset_success g_id =
     \<lparr> status_code = 200,
       content = JDict
         [(''status'', JStr ''success''),
          (''message'', JStr (''RAG context for gpt_id '' @ quoted g_id
             @ '' cleared from memory and local disk.''))] \<rparr>"

definition dev_reset_gpt_context_endpoint ::
  "environ \<Rightarrow> os_calls \<Rightarrow> engine \<Rightarrow> app_state \<Rightarrow> string \<Rightarrow> JSONResponse \<times> app_state" where
  "dev_reset_gpt_context_endpoint env os eng st g_id =
     (if lower (getenv_default env ''ENVIRONMENT_TYPE'' ''production'') \<noteq> ''development'' then
        (\<lparr> status_code = 403,
           content = JDict [(''error'', JStr ''Endpoint only available in development.'')] \<rparr>,
         st)
      else
        (case active_rag_sessions st g_id of
           Some rag_instance_to_reset \<Rightarrow>
             (let st1 = st\<lparr>active_rag_sessions := (active_rag_sessions st)(g_id := None)\<rparr>
              in case call_engine eng st1 (clear_all_context rag_instance_to_reset) of
                   (Some e, st2) \<Rightarrow> (reset_error e, st2)
                 | (None, st2) \<Rightarrow>
                     (case str_format os (LOCAL_KB_INDEX_PATH_TEMPLATE env) g_id of
                        Inl e \<Rightarrow> (reset_error e, st2)
                      | Inr kb_index_path_to_delete \<Rightarrow>
                          if os_path_exists os (local_fs st2) kb_index_path_to_delete then
                            (case shutil_rmtree os (local_fs st2) kb_index_path_to_delete of
                               Inl (e, left) \<Rightarrow> (reset_error e, st2\<lparr>local_fs := left\<rparr>)
                             | Inr purged \<Rightarrow> (reset_success g_id, st2\<lparr>local_fs := purged\<rparr>))
                          else (reset_success g_id, st2)))
         | None \<Rightarrow>
             (\<lparr> status_code = 404,
                content = JDict
                  [(''status'', JStr ''not_found''),
                   (''message'', JStr (''No active RAG context for gpt_id '' @ quoted g_id @ ''.''))] \<rparr>,
              st)))"

section \<open>Schedules of calls and example data\<close>

text \<open>
  Calls of \<open>get_or_create_rag_instance\<close> that run concurrently are serialised by
  \<open>sessions_lock\<close>, and the body of each is one atomic step; a run of \<open>N\<close> concurrent
  calls is therefore the run of the calls one after the other, in the order in which
  they take the lock. \<open>resolve_all\<close> runs a list of calls in that order and collects what
  each one returns or raises.
\<close>

record resolve_call =
  call_user_email :: string
  call_gpt_id :: string
  call_gpt_name :: "string option kwarg"
  call_default_model :: "string option kwarg"
  call_default_system_prompt :: "string option kwarg"
  call_default_use_hybrid_search :: "bool option kwarg"

definition resolve :: "environ \<Rightarrow> app_state \<Rightarrow> resolve_call \<Rightarrow> (py_exception + nat) \<times> app_state" where
  "resolve env st c =
     get_or_create_rag_instance env st (call_user_email c) (call_gpt_id c) (call_gpt_name c)
       (call_default_model c) (call_default_system_prompt c) (call_default_use_hybrid_search c)"

fun resolve_all ::
  "environ \<Rightarrow> app_state \<Rightarrow> resolve_call list \<Rightarrow> (py_exception + nat) list \<times> app_state" where
  "resolve_all env st [] = ([], st)"
| "resolve_all env st (c # cs) =
     (case resolve env st c of
        (r, st1) \<Rightarrow> (case resolve_all env st1 cs of (rs, st2) \<Rightarrow> (r # rs, st2)))"

text \<open>The number of handles constructed so far for a tenant key.\<close>

definition constructed_for :: "string \<Rightarrow> app_state \<Rightarrow> nat" where
  "constructed_for g st = length (filter (\<lambda>r. gpt_id r = g) (heap st))"

text \<open>The mandatory configuration is present.\<close>

definition configured :: "environ \<Rightarrow> bool" where
  "configured env = (truthy (getenv env ''OPENAI_API_KEY'') \<and> truthy (getenv env ''QDRANT_URL''))"

definition example_env :: environ where
  "example_env = [''OPENAI_API_KEY'' \<mapsto> ''sk-test'', ''QDRANT_URL'' \<mapsto> ''http://qdrant:6333'']"

definition dev_env :: environ where
  "dev_env = example_env(''ENVIRONMENT_TYPE'' \<mapsto> ''Development'')"

definition plain_call :: "string \<Rightarrow> resolve_call" where
  "plain_call g =
     \<lparr> call_user_email = ''a@b.c'', call_gpt_id = g, call_gpt_name = Omitted,
       call_default_model = Omitted, call_default_system_prompt = Omitted,
       call_default_use_hybrid_search = Omitted \<rparr>"

definition tenant_with_hybrid :: app_state where
  "tenant_with_hybrid =
     snd (get_or_create_rag_instance example_env initial_state ''a@b.c'' ''g1''
            Omitted Omitted Omitted (Passed (Some True)))"

text \<open>
  The scheme of a URL, in the words of the specification: the text before the first
  colon, read without regard to case.
\<close>

definition url_scheme :: "string \<Rightarrow> string" where
  "url_scheme url = lower (takeWhile (\<lambda>c. c \<noteq> CHR '':'') url)"

text \<open>
  A stand-in for \<open>json.dumps\<close> on concrete inputs: it is \<open>json.dumps\<close> on values whose
  strings need no escaping, and raises on a value that holds a \<open>PyObject\<close>.
\<close>

fun str_join :: "string \<Rightarrow> string list \<Rightarrow> string" where
  "str_join sep [] = []"
| "str_join sep [x] = x"
| "str_join sep (x # y # ys) = x @ sep @ str_join sep (y # ys)"

definition str_int :: "int \<Rightarrow> string" where
  "str_int i = (if i < 0 then ''-'' @ str_nat (nat (- i)) else str_nat (nat i))"

fun ascii_text :: "json \<Rightarrow> string" where
  "ascii_text JNull = ''null''"
| "ascii_text (JBool b) = (if b then ''true'' else ''false'')"
| "ascii_text (JInt i) = str_int i"
| "ascii_text (JStr s) = [CHR 0x22] @ s @ [CHR 0x22]"
| "ascii_text (JList xs) = ''['' @ str_join '', '' (map ascii_text xs) @ '']''"
| "ascii_text (JDict kvs) =
     ''{'' @ str_join '', ''
               (map (\<lambda>kv. [CHR 0x22] @ fst kv @ [CHR 0x22] @ '': '' @ ascii_text (snd kv)) kvs)
       @ ''}''"
| "ascii_text (PyObject t) = []"

fun py_objects :: "json \<Rightarrow> string list" where
  "py_objects (JList xs) = concat (map py_objects xs)"
| "py_objects (JDict kvs) = concat (map (\<lambda>kv. py_objects (snd kv)) kvs)"
| "py_objects (PyObject t) = [t]"
| "py_objects j = []"

definition ascii_dumps :: json_dumps where
  "ascii_dumps j =
     (case py_objects j of
        [] \<Rightarrow> Inr (ascii_text j)
      | t # ts \<Rightarrow> Inl (''Object of type '' @ t @ '' is not JSON serializable''))"

text \<open>
  Stand-ins for the three calls of the purge: a template that ends in its only
  placeholder, a path that exists when the disk has an entry for it, and a removal
  that takes a directory with everything below it and raises on anything else.
\<close>

definition example_format :: "string \<Rightarrow> string \<Rightarrow> string + string" where
  "example_format template g =
     (if drop (length template - 8) template = ''{gpt_id}''
      then Inr (take (length template - 8) template @ g)
      else Inl ''Single '}' encountered in format string'')"

definition example_rmtree :: "disk \<Rightarrow> string \<Rightarrow> (string \<times> disk) + disk" where
  "example_rmtree d p =
     (case d p of
        Some Directory \<Rightarrow> Inr (\<lambda>q. if q = p \<or> startswith q (p @ ''/'') then None else d q)
      | Some other \<Rightarrow> Inl (''[Errno 20] Not a directory: '' @ quoted p, d)
      | None \<Rightarrow> Inl (''[Errno 2] No such file or directory: '' @ quoted p, d))"

definition example_os :: os_calls where
  "example_os =
     \<lparr> str_format = example_format,
       os_path_exists = (\<lambda>d p. d p \<noteq> None),
       shutil_rmtree = example_rmtree \<rparr>"

text \<open>Collaborators and inputs for the concrete runs.\<close>

definition example_download :: r2_download where
  "example_download url = (True, ''kb/'' @ url)"

definition engine_ok :: engine where
  "engine_ok c = None"

definition failing_upload :: r2_upload where
  "failing_upload file_data name is_user_doc = Inr (False, ''R2 unavailable'')"

definition empty_env :: environ where
  "empty_env = Map.empty"

definition engine_down :: engine where
  "engine_down c = Some ''qdrant unreachable''"

definition example_upload :: r2_upload where
  "example_upload file_data name is_user_doc = Inr (True, ''user_docs/'' @ name)"

definition example_file :: UploadFile where
  "example_file = \<lparr> upload_filename = ''a.pdf'', upload_read = Inr ''%PDF-1.7'' \<rparr>"

definition tenant_with_index :: app_state where
  "tenant_with_index =
     tenant_with_hybrid\<lparr>local_fs :=
       [''local_rag_data/kb_indexes/g1'' \<mapsto> Directory,
        ''local_rag_data/kb_indexes/g1/index.faiss'' \<mapsto> RegularFile,
        ''local_rag_data/kb_indexes/g2'' \<mapsto> Directory]\<rparr>"

definition tenant_with_index_file :: app_state where
  "tenant_with_index_file =
     tenant_with_hybrid\<lparr>local_fs := [''local_rag_data/kb_indexes/g1'' \<mapsto> RegularFile]\<rparr>"

definition setup_request :: "string list \<Rightarrow> GptContextSetupRequest" where
  "setup_request urls =
     \<lparr> req_user_email = ''a@b.c'', req_gpt_id = ''g1'', req_gpt_name = Some ''default_gpt'',
       kb_document_urls = Some urls, req_default_model = None,
       req_default_system_prompt = None, req_default_use_hybrid_search = Some False \<rparr>"

text \<open>The first line that \<open>_process_kb_urls_task\<close> prints.\<close>

definition kb_task_header :: "app_state \<Rightarrow> string list \<Rightarrow> nat \<Rightarrow> string" where
  "kb_task_header st urls rag =
     ''BG Task: Processing '' @ str_nat (length urls) @ '' KB URLs for gpt_id ''
       @ quoted (gpt_id (heap st ! rag)) @ ''...''"

text \<open>
  The locations that the loop over the uploaded files collects, and the index update
  that \<open>upload_chat_files_endpoint\<close> awaits for them.
\<close>

definition stored_locations :: "r2_upload \<Rightarrow> bool \<Rightarrow> UploadFile list \<Rightarrow> string list" where
  "stored_locations up b files =
     map stored_url_or_key
       (filter (\<lambda>r. status r = ''success'' \<and> stored_url_or_key r \<noteq> [])
          (map (\<lambda>f. process_uploaded_file_to_r2 up f b) files))"

definition chat_files_call :: "bool \<Rightarrow> nat \<Rightarrow> string \<Rightarrow> string \<Rightarrow> string list \<Rightarrow> engine_call" where
  "chat_files_call b rag u g file_urls =
     (if b then update_user_documents_from_r2 rag (get_session_id u g) file_urls
      else update_knowledge_base_from_r2 rag file_urls)"

text \<open>The gate of \<open>dev_reset_gpt_context_endpoint\<close>, and a fragment of a chat answer.\<close>

definition in_development :: "environ \<Rightarrow> bool" where
  "in_development env = (lower (getenv_default env ''ENVIRONMENT_TYPE'' ''production'') = ''development'')"

definition content_chunk :: "string \<Rightarrow> json" where
  "content_chunk t = JDict [(''type'', JStr ''content''), (''data'', JStr t)]"

text \<open>
  A fragment that \<open>json.dumps\<close> encodes, and a value of type \<open>"error"\<close>, as the chunk of
  the handler is.
\<close>

definition encodable :: "json_dumps \<Rightarrow> json \<Rightarrow> bool" where
  "encodable dumps c = (\<not> isl (dumps c))"

definition is_error_chunk :: "json \<Rightarrow> bool" where
  "is_error_chunk j =
     (case j of JDict kvs \<Rightarrow> map_of kvs ''type'' = Some (JStr ''error'') | _ \<Rightarrow> False)"

text \<open>The state once the entry is popped and the teardown has been called.\<close>

definition popped :: "app_state \<Rightarrow> string \<Rightarrow> nat \<Rightarrow> app_state" where
  "popped st g h =
     st\<lparr>active_rag_sessions := (active_rag_sessions st)(g := None),
        engine_calls := engine_calls st @ [clear_all_context h]\<rparr>"

section \<open>Properties of the session registry\<close>

lemma startswith_Cons [simp]: "startswith (c # s) (d # p) \<longleftrightarrow> c = d \<and> startswith s p"
  by (auto simp: startswith_def)

lemma startswith_Nil [simp]: "startswith s []" "startswith [] (d # p) = False"
  by (auto simp: startswith_def)

lemma gpt_id_update_defaults [simp]: "gpt_id (update_defaults m p b r) = gpt_id r"
  by (simp add: update_defaults_def Let_def split: option.splits)

lemma filter_length_list_update:
  "P y = P (xs ! h) \<Longrightarrow> length (filter P (xs[h := y])) = length (filter P xs)"
proof (induction xs arbitrary: h)
  case Nil
  then show ?case by simp
next
  case (Cons x xs)
  then show ?case by (cases h) auto
qed

lemma get_or_create_existing:
  "active_rag_sessions st g = Some h \<Longrightarrow>
   get_or_create_rag_instance env st u g kn km kp kh =
     (Inr h, st\<lparr>heap := (heap st)[h := update_defaults (bind_kwarg None km) (bind_kwarg None kp)
                                    (bind_kwarg (Some False) kh) (heap st ! h)]\<rparr>)"
  by (simp add: get_or_create_rag_instance_def)

lemma get_or_create_unconfigured:
  "active_rag_sessions st g = None \<Longrightarrow> \<not> configured env \<Longrightarrow>
   \<exists>m. get_or_create_rag_instance env st u g kn km kp kh = (Inl (ValueError m), st)"
  by (auto simp: get_or_create_rag_instance_def configured_def truthy_def split: option.splits)

lemma get_or_create_new:
  "active_rag_sessions st g = None \<Longrightarrow> configured env \<Longrightarrow>
   get_or_create_rag_instance env st u g kn km kp kh =
       (Inr (length (heap st)),
        st\<lparr>heap := heap st @ [new_EnhancedRAG env g (the (getenv env ''OPENAI_API_KEY''))
                                (the (getenv env ''QDRANT_URL'')) (bind_kwarg None km)
                                (bind_kwarg None kp) (bind_kwarg (Some False) kh)],
           active_rag_sessions := (active_rag_sessions st)(g \<mapsto> length (heap st))\<rparr>)"
  by (auto simp: get_or_create_rag_instance_def configured_def truthy_def Let_def
      split: option.splits)

lemma resolve_cases:
  assumes "resolve env st c = (r, st1)"
  obtains
    (reuse) h where "active_rag_sessions st (call_gpt_id c) = Some h" "r = Inr h"
      "active_rag_sessions st1 = active_rag_sessions st" "length (heap st1) = length (heap st)"
      "\<And>g. constructed_for g st1 = constructed_for g st"
  | (fail) e where "active_rag_sessions st (call_gpt_id c) = None" "r = Inl e" "st1 = st"
      "\<not> configured env"
  | (create) "active_rag_sessions st (call_gpt_id c) = None" "r = Inr (length (heap st))"
      "active_rag_sessions st1 = (active_rag_sessions st)(call_gpt_id c \<mapsto> length (heap st))"
      "length (heap st1) = Suc (length (heap st))"
      "\<And>g. constructed_for g st1 = (if g = call_gpt_id c then Suc (constructed_for g st) else constructed_for g st)"
      "configured env"
proof (cases "active_rag_sessions st (call_gpt_id c)")
  case (Some h)
  from get_or_create_existing[OF Some, of env "call_user_email c" "call_gpt_name c"
        "call_default_model c" "call_default_system_prompt c" "call_default_use_hybrid_search c"] assms
  have "r = Inr h" "active_rag_sessions st1 = active_rag_sessions st"
      "heap st1 = (heap st)[h := update_defaults
          (bind_kwarg None (call_default_model c))
          (bind_kwarg None (call_default_system_prompt c))
          (bind_kwarg (Some False) (call_default_use_hybrid_search c)) (heap st ! h)]"
    by (auto simp: resolve_def)
  then have f: "r = Inr h" "active_rag_sessions st1 = active_rag_sessions st"
      "length (heap st1) = length (heap st)"
      "\<And>g. constructed_for g st1 = constructed_for g st"
    by (simp_all add: constructed_for_def filter_length_list_update)
  show ?thesis by (rule reuse[OF Some f])
next
  case None
  show ?thesis
  proof (cases "configured env")
    case False
    from get_or_create_unconfigured[OF None False, of "call_user_email c" "call_gpt_name c"
        "call_default_model c" "call_default_system_prompt c" "call_default_use_hybrid_search c"] assms
    obtain m where m: "r = Inl (ValueError m)" "st1 = st"
      by (fastforce simp: resolve_def)
    show ?thesis by (rule fail[OF None m False])
  next
    case True
    define obj where "obj = new_EnhancedRAG env (call_gpt_id c)
        (the (getenv env ''OPENAI_API_KEY'')) (the (getenv env ''QDRANT_URL''))
        (bind_kwarg None (call_default_model c)) (bind_kwarg None (call_default_system_prompt c))
        (bind_kwarg (Some False) (call_default_use_hybrid_search c))"
    have g: "gpt_id obj = call_gpt_id c"
      by (simp add: obj_def new_EnhancedRAG_def)
    from get_or_create_new[OF None True, of "call_user_email c" "call_gpt_name c"
        "call_default_model c" "call_default_system_prompt c" "call_default_use_hybrid_search c"] assms
    have o: "r = Inr (length (heap st))"
       "st1 = st\<lparr>heap := heap st @ [obj],
           active_rag_sessions := (active_rag_sessions st)(call_gpt_id c \<mapsto> length (heap st))\<rparr>"
      by (simp_all add: resolve_def obj_def)
    with g have o: "gpt_id obj = call_gpt_id c" "r = Inr (length (heap st))"
       "st1 = st\<lparr>heap := heap st @ [obj],
           active_rag_sessions := (active_rag_sessions st)(call_gpt_id c \<mapsto> length (heap st))\<rparr>"
      by simp_all
    then have f: "active_rag_sessions st1 = (active_rag_sessions st)(call_gpt_id c \<mapsto> length (heap st))"
      "length (heap st1) = Suc (length (heap st))"
      "\<And>g. constructed_for g st1 = (if g = call_gpt_id c then Suc (constructed_for g st) else constructed_for g st)"
      by (simp_all add: constructed_for_def)
    show ?thesis by (rule create[OF None o(2) f True])
  qed
qed


lemma resolve_all_length: "resolve_all env st cs = (rs, st') \<Longrightarrow> length rs = length cs"
  by (induction cs arbitrary: st rs) (auto split: prod.splits)

lemma resolve_keeps_existing:
  assumes "resolve env st c = (r, st1)" "active_rag_sessions st g = Some h"
  shows "active_rag_sessions st1 g = Some h \<and> constructed_for g st1 = constructed_for g st
           \<and> (call_gpt_id c = g \<longrightarrow> r = Inr h)"
  using assms(1)
proof (cases rule: resolve_cases)
  case (reuse h')
  with assms(2) show ?thesis by auto
next
  case (fail e)
  with assms(2) show ?thesis by auto
next
  case create
  with assms(2) show ?thesis by auto
qed

lemma resolve_all_existing:
  "active_rag_sessions st g = Some h \<Longrightarrow> resolve_all env st cs = (rs, st') \<Longrightarrow>
   active_rag_sessions st' g = Some h \<and> constructed_for g st' = constructed_for g st
     \<and> (\<forall>i<length cs. call_gpt_id (cs ! i) = g \<longrightarrow> rs ! i = Inr h)"
proof (induction cs arbitrary: st rs)
  case Nil
  then show ?case by simp
next
  case (Cons c cs)
  obtain r st1 where r: "resolve env st c = (r, st1)" by (cases "resolve env st c")
  obtain rs1 where rs1: "resolve_all env st1 cs = (rs1, st')" "rs = r # rs1"
    using Cons.prems(2) r by (auto split: prod.splits)
  note k = resolve_keeps_existing[OF r Cons.prems(1)]
  from Cons.IH[OF _ rs1(1), of ] k
  have ih: "active_rag_sessions st' g = Some h" "constructed_for g st' = constructed_for g st1"
    "\<forall>i<length cs. call_gpt_id (cs ! i) = g \<longrightarrow> rs1 ! i = Inr h"
    by auto
  show ?case
  proof (intro conjI allI impI)
    fix i assume "i < length (c # cs)" "call_gpt_id ((c # cs) ! i) = g"
    then show "rs ! i = Inr h" using ih(3) k rs1(2) by (cases i) auto
  qed (use ih k in auto)
qed

lemma resolve_returns_registered:
  assumes "resolve env st c = (Inr h, st1)"
  shows "active_rag_sessions st1 (call_gpt_id c) = Some h"
  using assms by (cases rule: resolve_cases) auto

lemma resolve_all_same_handle:
  "resolve_all env st cs = (rs, st') \<Longrightarrow> i < length cs \<Longrightarrow> j < length cs \<Longrightarrow>
   call_gpt_id (cs ! i) = call_gpt_id (cs ! j) \<Longrightarrow> rs ! i = Inr h \<Longrightarrow> rs ! j = Inr h' \<Longrightarrow> h = h'"
proof (induction cs arbitrary: st rs i j)
  case Nil
  then show ?case by simp
next
  case (Cons c cs)
  obtain r st1 where r: "resolve env st c = (r, st1)" by (cases "resolve env st c")
  obtain rs1 where rs1: "resolve_all env st1 cs = (rs1, st')" "rs = r # rs1"
    using Cons.prems(1) r by (auto split: prod.splits)
  show ?case
  proof (cases i)
    case 0
    note i0 = 0
    show ?thesis
    proof (cases j)
      case 0
      with i0 Cons.prems show ?thesis by simp
    next
      case (Suc j')
      from i0 Cons.prems(5) rs1(2) have "r = Inr h" by simp
      with r have "active_rag_sessions st1 (call_gpt_id c) = Some h"
        by (simp add: resolve_returns_registered)
      from resolve_all_existing[OF this rs1(1)] Suc Cons.prems(3,4,6) i0 rs1(2)
      show ?thesis by auto
    qed
  next
    case (Suc i')
    note iS = Suc
    show ?thesis
    proof (cases j)
      case 0
      from 0 Cons.prems(6) rs1(2) have "r = Inr h'" by simp
      with r have "active_rag_sessions st1 (call_gpt_id c) = Some h'"
        by (simp add: resolve_returns_registered)
      from resolve_all_existing[OF this rs1(1)] iS Cons.prems(2,4,5) 0 rs1(2)
      show ?thesis by auto
    next
      case (Suc j')
      with iS Cons.prems rs1 Cons.IH[OF rs1(1), of i' j'] show ?thesis by auto
    qed
  qed
qed

lemma resolve_all_registered:
  "resolve_all env st cs = (rs, st') \<Longrightarrow> i < length cs \<Longrightarrow> rs ! i = Inr h \<Longrightarrow>
   active_rag_sessions st' (call_gpt_id (cs ! i)) = Some h"
proof (induction cs arbitrary: st rs i)
  case Nil
  then show ?case by simp
next
  case (Cons c cs)
  obtain r st1 where r: "resolve env st c = (r, st1)" by (cases "resolve env st c")
  obtain rs1 where rs1: "resolve_all env st1 cs = (rs1, st')" "rs = r # rs1"
    using Cons.prems(1) r by (auto split: prod.splits)
  show ?case
  proof (cases i)
    case 0
    with Cons.prems(3) rs1(2) r have "active_rag_sessions st1 (call_gpt_id c) = Some h"
      by (simp add: resolve_returns_registered)
    from resolve_all_existing[OF this rs1(1)] 0 show ?thesis by simp
  next
    case (Suc i')
    with Cons.prems rs1 Cons.IH[OF rs1(1), of i'] show ?thesis by auto
  qed
qed

lemma resolve_all_constructs_at_most_one:
  "resolve_all env st cs = (rs, st') \<Longrightarrow>
   constructed_for g st \<le> constructed_for g st' \<and> constructed_for g st' \<le> Suc (constructed_for g st)"
proof (induction cs arbitrary: st rs)
  case Nil
  then show ?case by simp
next
  case (Cons c cs)
  obtain r st1 where r: "resolve env st c = (r, st1)" by (cases "resolve env st c")
  obtain rs1 where rs1: "resolve_all env st1 cs = (rs1, st')" "rs = r # rs1"
    using Cons.prems(1) r by (auto split: prod.splits)
  note ih = Cons.IH[OF rs1(1)]
  from r show ?case
  proof (cases rule: resolve_cases)
    case (reuse h)
    with ih show ?thesis by simp
  next
    case (fail e)
    with ih show ?thesis by simp
  next
    case create
    show ?thesis
    proof (cases "g = call_gpt_id c")
      case True
      with create(3) have "active_rag_sessions st1 g = Some (length (heap st))" by simp
      from resolve_all_existing[OF this rs1(1)] create(5) True show ?thesis by simp
    next
      case False
      with create(5) ih show ?thesis by simp
    qed
  qed
qed

lemma resolve_all_returned_constructs:
  "active_rag_sessions st g = None \<Longrightarrow> resolve_all env st cs = (rs, st') \<Longrightarrow>
   i < length cs \<Longrightarrow> call_gpt_id (cs ! i) = g \<Longrightarrow> rs ! i = Inr h \<Longrightarrow>
   constructed_for g st' = Suc (constructed_for g st)"
proof (induction cs arbitrary: st rs i)
  case Nil
  then show ?case by simp
next
  case (Cons c cs)
  obtain r st1 where r: "resolve env st c = (r, st1)" by (cases "resolve env st c")
  obtain rs1 where rs1: "resolve_all env st1 cs = (rs1, st')" "rs = r # rs1"
    using Cons.prems(2) r by (auto split: prod.splits)
  from r show ?case
  proof (cases rule: resolve_cases)
    case (reuse h')
    with Cons.prems(1) have ne: "call_gpt_id c \<noteq> g" by auto
    with Cons.prems(3,4) obtain j where j: "i = Suc j" by (cases i) auto
    from reuse Cons.prems(1) have "active_rag_sessions st1 g = None" by simp
    from Cons.IH[OF this rs1(1), of j] j Cons.prems(3,4,5) rs1(2) reuse(5)
    show ?thesis by simp
  next
    case (fail e)
    with Cons.prems(5) rs1(2) obtain j where j: "i = Suc j" by (cases i) auto
    from fail Cons.prems(1) have "active_rag_sessions st1 g = None" by simp
    from Cons.IH[OF this rs1(1), of j] j Cons.prems(3,4,5) rs1(2) fail(3)
    show ?thesis by simp
  next
    case create
    show ?thesis
    proof (cases "call_gpt_id c = g")
      case True
      with create(3) have "active_rag_sessions st1 g = Some (length (heap st))" by simp
      from resolve_all_existing[OF this rs1(1)] create(5) True show ?thesis by simp
    next
      case False
      with Cons.prems(3,4) obtain j where j: "i = Suc j" by (cases i) auto
      from create(3) False Cons.prems(1) have "active_rag_sessions st1 g = None" by simp
      from Cons.IH[OF this rs1(1), of j] j Cons.prems(3,4,5) rs1(2) create(5) False
      show ?thesis by simp
    qed
  qed
qed

lemma resolve_all_only_existing:
  "active_rag_sessions st g = Some h \<Longrightarrow> \<forall>c \<in> set cs. call_gpt_id c = g \<Longrightarrow>
   resolve_all env st cs = (rs, st') \<Longrightarrow>
   rs = replicate (length cs) (Inr h) \<and> length (heap st') = length (heap st)
     \<and> active_rag_sessions st' = active_rag_sessions st"
proof (induction cs arbitrary: st rs)
  case Nil
  then show ?case by simp
next
  case (Cons c cs)
  obtain r st1 where r: "resolve env st c = (r, st1)" by (cases "resolve env st c")
  obtain rs1 where rs1: "resolve_all env st1 cs = (rs1, st')" "rs = r # rs1"
    using Cons.prems(3) r by (auto split: prod.splits)
  from r have f: "r = Inr h" "active_rag_sessions st1 = active_rag_sessions st"
    "length (heap st1) = length (heap st)"
    using Cons.prems(1,2) by (cases rule: resolve_cases; simp)+
  from Cons.IH[OF _ _ rs1(1)] f Cons.prems(1,2) rs1(2) show ?case by simp
qed

lemma resolve_all_first_time:
  assumes "active_rag_sessions st g = None" "configured env" "cs \<noteq> []"
    "\<forall>c \<in> set cs. call_gpt_id c = g" "resolve_all env st cs = (rs, st')"
  shows "rs = replicate (length cs) (Inr (length (heap st)))
     \<and> length (heap st') = Suc (length (heap st))
     \<and> constructed_for g st' = Suc (constructed_for g st)"
proof -
  obtain c cs' where cs: "cs = c # cs'" using assms(3) by (cases cs) auto
  obtain r st1 where r: "resolve env st c = (r, st1)" by (cases "resolve env st c")
  obtain rs1 where rs1: "resolve_all env st1 cs' = (rs1, st')" "rs = r # rs1"
    using assms(5) r cs by (auto split: prod.splits)
  have g: "call_gpt_id c = g" "\<forall>c \<in> set cs'. call_gpt_id c = g" using assms(4) cs by auto
  from r have f: "r = Inr (length (heap st))" "length (heap st1) = Suc (length (heap st))"
    "active_rag_sessions st1 g = Some (length (heap st))"
    "constructed_for g st1 = Suc (constructed_for g st)"
    using assms(1,2) g(1) by (cases rule: resolve_cases; simp)+
  from resolve_all_only_existing[OF f(3) g(2) rs1(1)] resolve_all_existing[OF f(3) rs1(1)] f rs1(2) cs
  show ?thesis by simp
qed

lemma update_defaults_None [simp]: "update_defaults None None None r = r"
  by (simp add: update_defaults_def)

text \<open>
  Overrides passed as \<open>None\<close> leave an existing session as it is, and so does an empty
  string for the model or the system prompt.
\<close>

lemma null_overrides_keep_defaults:
  assumes "active_rag_sessions st g = Some h"
  shows "get_or_create_rag_instance env st u g kn (Passed None) (Passed None) (Passed None)
           = (Inr h, st)"
  using assms by (simp add: get_or_create_rag_instance_def)

text \<open>One override that is passed, the others passed as \<open>None\<close>: only its field changes.\<close>

lemma model_override_only:
  "m \<noteq> [] \<Longrightarrow> update_defaults (Some m) None None r = r\<lparr>default_llm_model_name := m\<rparr>"
  by (simp add: update_defaults_def)

lemma system_prompt_override_only:
  "p \<noteq> [] \<Longrightarrow> update_defaults None (Some p) None r = r\<lparr>default_system_prompt := Some p\<rparr>"
  by (simp add: update_defaults_def)

lemma hybrid_override_only:
  "update_defaults None None (Some b) r = r\<lparr>default_use_hybrid_search := Some b\<rparr>"
  by (simp add: update_defaults_def)

text \<open>
  C1. Merging never erases an existing default: an override that is null or absent
  leaves the session's value, and one override changes its own field only.

  The code breaks this for the hybrid-search flag. The guard
  \<open>if default_use_hybrid_search is not None\<close> skips the assignment for \<open>None\<close>, as the
  guards of the two other fields do, and the function prints "Updated defaults if
  provided"; but the parameter's default is \<open>False\<close>, not \<open>None\<close>, so a call that leaves
  the flag out assigns \<open>False\<close>. \<open>upload_documents_endpoint\<close> and
  \<open>upload_chat_files_endpoint\<close> resolve the session with no override at all: on a
  tenant whose flag is \<open>True\<close> the flag is \<open>False\<close> afterwards.
\<close>

theorem omitted_hybrid_override_overwrites_default:
  "active_rag_sessions tenant_with_hybrid ''g1'' = Some 0
   \<and> default_use_hybrid_search (heap tenant_with_hybrid ! 0) = Some True
   \<and> fst (get_or_create_rag_instance example_env tenant_with_hybrid ''a@b.c'' ''g1''
            Omitted Omitted Omitted Omitted) = Inr 0
   \<and> default_use_hybrid_search
        (heap (snd (get_or_create_rag_instance example_env tenant_with_hybrid ''a@b.c'' ''g1''
                      Omitted Omitted Omitted Omitted)) ! 0) = Some False"
  by (simp add: tenant_with_hybrid_def get_or_create_rag_instance_def example_env_def
      initial_state_def getenv_def new_EnhancedRAG_def update_defaults_def)

text \<open>
  C2. For every tenant key the registry holds at most one handle, every call of
  \<open>get_or_create_rag_instance\<close> with the same key returns the same reference, and \<open>N\<close>
  concurrent first calls construct exactly one handle.

  The registry is a dictionary, so a key has at most one entry. For every schedule of
  calls (any keys, any overrides, any configuration): two calls with the same key that
  return, return the same reference; the reference returned is the one the registry
  holds at the end; at most one handle is constructed for any key, and exactly one
  for a key that had no entry and for which some call returned. When the calls are
  all first calls for one key and the configuration is present, each of them returns
  the address of the one handle that was constructed.
\<close>

theorem one_shared_handle_per_tenant:
  assumes "resolve_all env st calls = (results, st')"
  shows "(\<forall>i<length calls. \<forall>j<length calls. \<forall>h h'.
            call_gpt_id (calls ! i) = call_gpt_id (calls ! j) \<longrightarrow>
            results ! i = Inr h \<longrightarrow> results ! j = Inr h' \<longrightarrow> h = h')
       \<and> (\<forall>i<length calls. \<forall>h. results ! i = Inr h \<longrightarrow>
            active_rag_sessions st' (call_gpt_id (calls ! i)) = Some h)
       \<and> (\<forall>g. constructed_for g st' \<le> Suc (constructed_for g st))
       \<and> (\<forall>g. active_rag_sessions st g = None
                 \<and> (\<exists>i<length calls. call_gpt_id (calls ! i) = g \<and> (\<exists>h. results ! i = Inr h)) \<longrightarrow>
               constructed_for g st' = Suc (constructed_for g st))
       \<and> (\<forall>g. active_rag_sessions st g = None \<and> configured env \<and> calls \<noteq> []
                 \<and> (\<forall>c \<in> set calls. call_gpt_id c = g) \<longrightarrow>
               results = replicate (length calls) (Inr (length (heap st)))
                 \<and> length (heap st') = Suc (length (heap st))
                 \<and> constructed_for g st' = Suc (constructed_for g st))"
proof (intro conjI allI impI)
  fix i j h h'
  assume "i < length calls" "j < length calls" "call_gpt_id (calls ! i) = call_gpt_id (calls ! j)"
    "results ! i = Inr h" "results ! j = Inr h'"
  with assms show "h = h'" by (rule resolve_all_same_handle)
next
  fix i h
  assume "i < length calls" "results ! i = Inr h"
  with assms show "active_rag_sessions st' (call_gpt_id (calls ! i)) = Some h"
    by (rule resolve_all_registered)
next
  fix g
  show "constructed_for g st' \<le> Suc (constructed_for g st)"
    using resolve_all_constructs_at_most_one[OF assms] by simp
next
  fix g
  assume "active_rag_sessions st g = None
            \<and> (\<exists>i<length calls. call_gpt_id (calls ! i) = g \<and> (\<exists>h. results ! i = Inr h))"
  then obtain i h where "active_rag_sessions st g = None" "i < length calls"
    "call_gpt_id (calls ! i) = g" "results ! i = Inr h"
    by blast
  from resolve_all_returned_constructs[OF this(1) assms this(2,3,4)]
  show "constructed_for g st' = Suc (constructed_for g st)" .
next
  fix g
  assume a: "active_rag_sessions st g = None \<and> configured env \<and> calls \<noteq> []
                 \<and> (\<forall>c \<in> set calls. call_gpt_id c = g)"
  with resolve_all_first_time[of st g env calls results st'] assms
  show "results = replicate (length calls) (Inr (length (heap st)))"
    "length (heap st') = Suc (length (heap st))"
    "constructed_for g st' = Suc (constructed_for g st)"
    by simp_all
qed

theorem one_shared_handle_per_tenant_witness:
  "active_rag_sessions initial_state ''g1'' = None \<and> configured example_env
   \<and> fst (resolve_all example_env initial_state
            [plain_call ''g1'', plain_call ''g1'', plain_call ''g1'']) = [Inr 0, Inr 0, Inr 0]
   \<and> length (heap (snd (resolve_all example_env initial_state
            [plain_call ''g1'', plain_call ''g1'', plain_call ''g1'']))) = 1
   \<and> constructed_for ''g1'' (snd (resolve_all example_env initial_state
            [plain_call ''g1'', plain_call ''g1'', plain_call ''g1''])) = 1"
proof -
  let ?cs = "[plain_call ''g1'', plain_call ''g1'', plain_call ''g1'']"
  have h1: "active_rag_sessions initial_state ''g1'' = None"
    by (simp add: initial_state_def)
  have h2: "configured example_env"
    by (simp add: configured_def example_env_def truthy_def getenv_def)
  have h3: "\<forall>c \<in> set ?cs. call_gpt_id c = ''g1''"
    by (simp add: plain_call_def)
  have h4: "constructed_for ''g1'' initial_state = 0" "length (heap initial_state) = 0"
    by (simp_all add: constructed_for_def initial_state_def)
  from one_shared_handle_per_tenant[where env = example_env and st = initial_state
      and calls = ?cs, OF surjective_pairing]
  have "active_rag_sessions initial_state ''g1'' = None \<and> configured example_env \<and> ?cs \<noteq> []
                 \<and> (\<forall>c \<in> set ?cs. call_gpt_id c = ''g1'') \<longrightarrow>
               fst (resolve_all example_env initial_state ?cs)
                  = replicate (length ?cs) (Inr (length (heap initial_state)))
                 \<and> length (heap (snd (resolve_all example_env initial_state ?cs)))
                      = Suc (length (heap initial_state))
                 \<and> constructed_for ''g1'' (snd (resolve_all example_env initial_state ?cs))
                      = Suc (constructed_for ''g1'' initial_state)"
    by blast
  with h1 h2 h3 h4 show ?thesis by (simp add: numeral_3_eq_3)
qed

text \<open>
  C8. A first resolve of a tenant key with \<open>OPENAI_API_KEY\<close> or \<open>QDRANT_URL\<close> missing
  (unset or empty) fails with the configuration error, which the code raises as a
  \<open>ValueError\<close>, and leaves the state as it was: the key has no entry, so a later
  resolve takes the creation path again.
\<close>

theorem first_resolve_missing_configuration:
  assumes "active_rag_sessions st g = None"
    and "\<not> truthy (getenv env ''OPENAI_API_KEY'') \<or> \<not> truthy (getenv env ''QDRANT_URL'')"
  shows "(\<exists>m. get_or_create_rag_instance env st u g kn km kp kh = (Inl (ValueError m), st))
         \<and> active_rag_sessions (snd (get_or_create_rag_instance env st u g kn km kp kh)) g = None"
proof -
  from assms(2) have "\<not> configured env" by (auto simp: configured_def)
  from get_or_create_unconfigured[OF assms(1) this, of u kn km kp kh] assms(1)
  show ?thesis by auto
qed

theorem first_resolve_missing_configuration_witness:
  "active_rag_sessions initial_state ''g1'' = None
   \<and> \<not> truthy (getenv [''QDRANT_URL'' \<mapsto> ''http://qdrant:6333''] ''OPENAI_API_KEY'')
   \<and> get_or_create_rag_instance [''QDRANT_URL'' \<mapsto> ''http://qdrant:6333''] initial_state
        ''a@b.c'' ''g1'' Omitted Omitted Omitted Omitted
       = (Inl (ValueError ''OPENAI_API_KEY not set in environment.''), initial_state)"
proof -
  let ?env = "[''QDRANT_URL'' \<mapsto> ''http://qdrant:6333'']"
  have h1: "active_rag_sessions initial_state ''g1'' = None"
    by (simp add: initial_state_def)
  have h2: "\<not> truthy (getenv ?env ''OPENAI_API_KEY'')"
    by (simp add: truthy_def getenv_def)
  from first_resolve_missing_configuration[OF h1 disjI1, OF h2,
      of "''a@b.c''" Omitted Omitted Omitted Omitted]
  obtain m where "get_or_create_rag_instance ?env initial_state ''a@b.c'' ''g1''
      Omitted Omitted Omitted Omitted = (Inl (ValueError m), initial_state)"
    by blast
  moreover have "fst (get_or_create_rag_instance ?env initial_state ''a@b.c'' ''g1''
      Omitted Omitted Omitted Omitted) = Inl (ValueError ''OPENAI_API_KEY not set in environment.'')"
    by (simp add: get_or_create_rag_instance_def getenv_def initial_state_def)
  ultimately show ?thesis using h1 h2 by simp
qed

section \<open>Properties of ingestion\<close>

lemma valid_kb_url_scheme:
  assumes "valid_kb_url url"
  shows "url_scheme url = ''http'' \<or> url_scheme url = ''https''"
proof -
  from assms consider "startswith url ''http://''" | "startswith url ''https://''"
    by (auto simp: valid_kb_url_def)
  then show ?thesis
  proof cases
    case 1
    then have "take (length ''http://'') url = ''http://''" by (simp only: startswith_def)
    then have "url = ''http://'' @ drop (length ''http://'') url"
      by (metis append_take_drop_id)
    then obtain r where "url = ''http://'' @ r" ..
    then show ?thesis by (simp add: url_scheme_def lower_def lower_char_def)
  next
    case 2
    then have "take (length ''https://'') url = ''https://''" by (simp only: startswith_def)
    then have "url = ''https://'' @ drop (length ''https://'') url"
      by (metis append_take_drop_id)
    then obtain r where "url = ''https://'' @ r" ..
    then show ?thesis by (simp add: url_scheme_def lower_def lower_char_def)
  qed
qed

lemma kb_urls_loop_result:
  "kb_urls_loop dl urls (keys, out) = (keys', out') \<Longrightarrow>
   keys' = keys @ map (\<lambda>u. snd (dl u)) (filter (\<lambda>u. valid_kb_url u \<and> fst (dl u)) urls)
   \<and> length out' = length out + length urls
   \<and> filter (\<lambda>l. startswith l ''Skipping invalid KB URL: '') out'
       = filter (\<lambda>l. startswith l ''Skipping invalid KB URL: '') out
         @ map (\<lambda>u. ''Skipping invalid KB URL: '' @ u) (filter (\<lambda>u. \<not> valid_kb_url u) urls)"
proof (induction urls arbitrary: keys out)
  case Nil
  then show ?case by simp
next
  case (Cons url urls)
  show ?case
  proof (cases "valid_kb_url url")
    case False
    with Cons.prems Cons.IH[of keys "out @ [''Skipping invalid KB URL: '' @ url]"]
    show ?thesis by simp
  next
    case True
    obtain ok p where d: "dl url = (ok, p)" by (cases "dl url")
    show ?thesis
    proof (cases ok)
      case True
      with \<open>valid_kb_url url\<close> d Cons.prems
        Cons.IH[of "keys @ [p]" "out @ [''KB URL '' @ quoted url @ '' processed to R2: '' @ p]"]
      show ?thesis by (simp add: quoted_def)
    next
      case False
      with \<open>valid_kb_url url\<close> d Cons.prems
        Cons.IH[of keys "out @ [''Failed to process KB URL '' @ quoted url @ ''. Error: '' @ p]"]
      show ?thesis by (simp add: quoted_def)
    qed
  qed
qed


lemma tenant_with_hybrid_eq:
  "tenant_with_hybrid =
     \<lparr> active_rag_sessions = [''g1'' \<mapsto> 0],
       heap = [\<lparr> gpt_id = ''g1'', openai_api_key = ''sk-test'', default_llm_model_name = ''gpt-4o'',
                 qdrant_url = ''http://qdrant:6333'', qdrant_api_key = None,
                 temp_processing_path = ''local_rag_data/temp_downloads'',
                 default_system_prompt = None, default_use_hybrid_search = Some True \<rparr>],
       engine_calls = [], local_fs = Map.empty, stdout = [] \<rparr>"
  by (simp add: tenant_with_hybrid_def get_or_create_rag_instance_def example_env_def
      initial_state_def getenv_def new_EnhancedRAG_def truthy_def getenv_default_def
      TEMP_DOWNLOAD_PATH_def LOCAL_DATA_BASE_PATH_def path_join_def)

lemma process_kb_urls_task_fields:
  assumes "kb_urls_loop dl urls ([], []) = (keys, out)"
  shows "engine_calls (process_kb_urls_task dl eng st urls rag)
           = engine_calls st @ (if keys = [] then [] else [update_knowledge_base_from_r2 rag keys])"
    and "active_rag_sessions (process_kb_urls_task dl eng st urls rag) = active_rag_sessions st"
    and "heap (process_kb_urls_task dl eng st urls rag) = heap st"
    and "local_fs (process_kb_urls_task dl eng st urls rag) = local_fs st"
    and "stdout (process_kb_urls_task dl eng st urls rag)
           = stdout st @ [kb_task_header st urls rag] @ out
             @ (if keys = [] then []
                else case eng (update_knowledge_base_from_r2 rag keys) of
                       None \<Rightarrow> []
                     | Some e \<Rightarrow> [''Error indexing KB documents for gpt_id ''
                                   @ quoted (gpt_id (heap st ! rag)) @ '': '' @ e])"
  using assms
  by (simp_all add: process_kb_urls_task_def print_def call_engine_def kb_task_header_def
      Let_def split: option.splits)

lemma process_kb_urls_task_empty:
  assumes "fst (kb_urls_loop dl urls ([], [])) = []"
  shows "process_kb_urls_task dl eng st urls rag
           = st\<lparr>stdout := stdout st @ [kb_task_header st urls rag]
                                @ snd (kb_urls_loop dl urls ([], []))\<rparr>"
proof -
  obtain out where "kb_urls_loop dl urls ([], []) = ([], out)"
    using assms by (cases "kb_urls_loop dl urls ([], [])") simp
  then show ?thesis by (simp add: process_kb_urls_task_def print_def kb_task_header_def Let_def)
qed

text \<open>
  C4. In a URL-fetch job every URL whose scheme is not http or https is skipped, which
  the task records by printing a line, the remaining URLs are still processed, and the
  index update is invoked with exactly the locations of the URLs that were fetched and
  stored, in their order (and is not invoked when there is none).
\<close>

theorem kb_urls_task_indexes_exactly_the_stored:
  "(\<forall>u \<in> set urls. url_scheme u \<notin> {''http'', ''https''} \<longrightarrow>
       ''Skipping invalid KB URL: '' @ u \<in> set (stdout (process_kb_urls_task dl eng st urls rag)))
   \<and> filter (\<lambda>l. startswith l ''Skipping invalid KB URL: '')
        (drop (length (stdout st)) (stdout (process_kb_urls_task dl eng st urls rag)))
       = map (\<lambda>u. ''Skipping invalid KB URL: '' @ u) (filter (\<lambda>u. \<not> valid_kb_url u) urls)
   \<and> fst (kb_urls_loop dl urls ([], []))
       = map (\<lambda>u. snd (dl u)) (filter (\<lambda>u. valid_kb_url u \<and> fst (dl u)) urls)
   \<and> engine_calls (process_kb_urls_task dl eng st urls rag)
       = engine_calls st
         @ (if filter (\<lambda>u. valid_kb_url u \<and> fst (dl u)) urls = [] then []
            else [update_knowledge_base_from_r2 rag
                    (map (\<lambda>u. snd (dl u)) (filter (\<lambda>u. valid_kb_url u \<and> fst (dl u)) urls))])"
proof -
  let ?skip = "\<lambda>l. startswith l ''Skipping invalid KB URL: ''"
  let ?t = "process_kb_urls_task dl eng st urls rag"
  obtain keys out where l: "kb_urls_loop dl urls ([], []) = (keys, out)"
    by (cases "kb_urls_loop dl urls ([], [])")
  from kb_urls_loop_result[OF l]
  have k: "keys = map (\<lambda>u. snd (dl u)) (filter (\<lambda>u. valid_kb_url u \<and> fst (dl u)) urls)"
    and o: "filter ?skip out
              = map (\<lambda>u. ''Skipping invalid KB URL: '' @ u) (filter (\<lambda>u. \<not> valid_kb_url u) urls)"
    by simp_all
  note f = process_kb_urls_task_fields[OF l, of eng st rag]
  have new: "filter ?skip (drop (length (stdout st)) (stdout ?t)) = filter ?skip out"
    by (simp add: f(5) kb_task_header_def split: option.splits)
  have c3: "fst (kb_urls_loop dl urls ([], []))
       = map (\<lambda>u. snd (dl u)) (filter (\<lambda>u. valid_kb_url u \<and> fst (dl u)) urls)"
    using l k by simp
  have c4: "engine_calls ?t = engine_calls st
         @ (if filter (\<lambda>u. valid_kb_url u \<and> fst (dl u)) urls = [] then []
            else [update_knowledge_base_from_r2 rag
                    (map (\<lambda>u. snd (dl u)) (filter (\<lambda>u. valid_kb_url u \<and> fst (dl u)) urls))])"
    using f(1) k by simp
  have c1: "\<forall>u \<in> set urls. url_scheme u \<notin> {''http'', ''https''} \<longrightarrow>
       ''Skipping invalid KB URL: '' @ u \<in> set (stdout ?t)"
  proof (intro ballI impI)
    fix u assume u: "u \<in> set urls" "url_scheme u \<notin> {''http'', ''https''}"
    then have "\<not> valid_kb_url u" using valid_kb_url_scheme by auto
    with u(1) have "''Skipping invalid KB URL: '' @ u \<in> set (filter ?skip out)"
      unfolding o by simp
    then have "''Skipping invalid KB URL: '' @ u \<in> set out" by simp
    then show "''Skipping invalid KB URL: '' @ u \<in> set (stdout ?t)"
      by (simp add: f(5))
  qed
  from c1 new o c3 c4 show ?thesis by simp
qed


lemma str_nat_small [simp]:
  "str_nat 0 = ''0''" "str_nat 1 = ''1''" "str_nat 2 = ''2''" "str_nat 3 = ''3''"
  "str_nat (Suc 0) = ''1''"
  by (simp_all add: str_nat.simps digit_def)

theorem kb_urls_task_indexes_exactly_the_stored_witness:
  "url_scheme ''ftp://h/b.pdf'' \<notin> {''http'', ''https''}
   \<and> ''Skipping invalid KB URL: ftp://h/b.pdf''
        \<in> set (stdout (process_kb_urls_task example_download engine_ok tenant_with_hybrid
                    [''http://h/a.pdf'', ''ftp://h/b.pdf'', ''https://h/c.pdf''] 0))
   \<and> filter (\<lambda>l. startswith l ''Skipping invalid KB URL: '')
        (stdout (process_kb_urls_task example_download engine_ok tenant_with_hybrid
                    [''http://h/a.pdf'', ''ftp://h/b.pdf'', ''https://h/c.pdf''] 0))
       = [''Skipping invalid KB URL: ftp://h/b.pdf'']
   \<and> engine_calls (process_kb_urls_task example_download engine_ok tenant_with_hybrid
                    [''http://h/a.pdf'', ''ftp://h/b.pdf'', ''https://h/c.pdf''] 0)
       = [update_knowledge_base_from_r2 0 [''kb/http://h/a.pdf'', ''kb/https://h/c.pdf'']]"
proof -
  let ?urls = "[''http://h/a.pdf'', ''ftp://h/b.pdf'', ''https://h/c.pdf'']"
  have s: "url_scheme ''ftp://h/b.pdf'' \<notin> {''http'', ''https''}"
    by (simp add: url_scheme_def lower_def lower_char_def)
  have v: "valid_kb_url ''http://h/a.pdf''" "\<not> valid_kb_url ''ftp://h/b.pdf''"
    "valid_kb_url ''https://h/c.pdf''"
    by (simp_all add: valid_kb_url_def)
  have e: "engine_calls tenant_with_hybrid = []" "stdout tenant_with_hybrid = []"
    by (simp_all add: tenant_with_hybrid_eq)
  from kb_urls_task_indexes_exactly_the_stored[of ?urls example_download engine_ok
      tenant_with_hybrid 0] s v e
  show ?thesis by (simp add: example_download_def)
qed

lemma store_files_loop_result:
  "store_files_loop up b files (results, keys) =
     (results @ map (\<lambda>f. process_uploaded_file_to_r2 up f b) files,
      keys @ map stored_url_or_key
               (filter (\<lambda>r. status r = ''success'' \<and> stored_url_or_key r \<noteq> [])
                  (map (\<lambda>f. process_uploaded_file_to_r2 up f b) files)))"
  by (induction files arbitrary: results keys) (simp_all add: Let_def)

text \<open>
  C3. When the list of stored locations is empty, the job reports a hard failure and no
  index update is invoked; for a direct upload the failure is the 400 response.

  The URL-fetch job does not report a failure: the request was answered with 202
  before the task ran, and the task returns having printed its per-item lines only.
\<close>

theorem url_job_without_stored_item_reports_no_failure:
  "fst (kb_urls_loop example_download [''ftp://h/b.pdf''] ([], [])) = []
   \<and> fst (setup_gpt_context_endpoint example_env example_download engine_ok initial_state
             (setup_request [''ftp://h/b.pdf'']))
       = Inr \<lparr> status_code = 202,
               content = JDict
                 [(''message'', JStr (''KB processing for gpt_id '' @ quoted ''g1''
                                       @ '' initiated for 1 URLs.'')),
                  (''gpt_id'', JStr ''g1'')] \<rparr>
   \<and> engine_calls (snd (setup_gpt_context_endpoint example_env example_download engine_ok
                           initial_state (setup_request [''ftp://h/b.pdf'']))) = []
   \<and> stdout (snd (setup_gpt_context_endpoint example_env example_download engine_ok
                      initial_state (setup_request [''ftp://h/b.pdf''])))
       = [''BG Task: Processing 1 KB URLs for gpt_id '' @ quoted ''g1'' @ ''...'',
          ''Skipping invalid KB URL: ftp://h/b.pdf'']"
  by (simp add: setup_gpt_context_endpoint_def setup_request_def get_or_create_rag_instance_def
      example_env_def initial_state_def getenv_def new_EnhancedRAG_def
      process_kb_urls_task_def print_def valid_kb_url_def Let_def)

text \<open>
  C3, as amended. When the list of stored locations is empty no index update is
  invoked. \<open>upload_documents_endpoint\<close> then answers 400 with the result of every file
  and leaves the state as it was (the session is not even resolved); the URL-fetch
  task ends after its loop, and all it leaves is its printed lines.
\<close>

theorem empty_aggregate_never_reaches_the_engine:
  "(snd (store_files_loop up (lower d = ''true'') files ([], [])) = [] \<longrightarrow>
      upload_documents_endpoint env up eng st files u g d =
        (Inr \<lparr> status_code = 400,
                content = JDict
                  [(''message'', JStr ''No files were successfully uploaded to R2.''),
                   (''upload_results'',
                    JList (map model_dump
                             (map (\<lambda>f. process_uploaded_file_to_r2 up f (lower d = ''true'')) files)))] \<rparr>,
         st))
   \<and> (fst (kb_urls_loop dl urls ([], [])) = [] \<longrightarrow>
      process_kb_urls_task dl eng st urls rag =
        st\<lparr>stdout := stdout st
               @ [''BG Task: Processing '' @ str_nat (length urls) @ '' KB URLs for gpt_id ''
                    @ quoted (gpt_id (heap st ! rag)) @ ''...'']
               @ snd (kb_urls_loop dl urls ([], []))\<rparr>)"
proof (intro conjI impI)
  assume "snd (store_files_loop up (lower d = ''true'') files ([], [])) = []"
  then show "upload_documents_endpoint env up eng st files u g d =
        (Inr \<lparr> status_code = 400,
                content = JDict
                  [(''message'', JStr ''No files were successfully uploaded to R2.''),
                   (''upload_results'',
                    JList (map model_dump
                             (map (\<lambda>f. process_uploaded_file_to_r2 up f (lower d = ''true'')) files)))] \<rparr>,
         st)"
    by (simp add: upload_documents_endpoint_def store_files_loop_result)
next
  assume "fst (kb_urls_loop dl urls ([], [])) = []"
  from process_kb_urls_task_empty[OF this, of eng st rag]
  show "process_kb_urls_task dl eng st urls rag =
        st\<lparr>stdout := stdout st
               @ [''BG Task: Processing '' @ str_nat (length urls) @ '' KB URLs for gpt_id ''
                    @ quoted (gpt_id (heap st ! rag)) @ ''...'']
               @ snd (kb_urls_loop dl urls ([], []))\<rparr>"
    by (simp add: kb_task_header_def)
qed

theorem empty_aggregate_never_reaches_the_engine_witness:
  "snd (store_files_loop failing_upload (lower ''false'' = ''true'') [example_file] ([], [])) = []
   \<and> status_code (projr (fst (upload_documents_endpoint example_env failing_upload engine_ok
                                 tenant_with_hybrid [example_file] ''a@b.c'' ''g1'' ''false''))) = 400
   \<and> snd (upload_documents_endpoint example_env failing_upload engine_ok
            tenant_with_hybrid [example_file] ''a@b.c'' ''g1'' ''false'') = tenant_with_hybrid
   \<and> fst (kb_urls_loop example_download [''ftp://h/b.pdf''] ([], [])) = []
   \<and> engine_calls (process_kb_urls_task example_download engine_ok tenant_with_hybrid
                      [''ftp://h/b.pdf''] 0) = []"
proof -
  have h1: "snd (store_files_loop failing_upload (lower ''false'' = ''true'') [example_file] ([], [])) = []"
    by (simp add: process_uploaded_file_to_r2_def failing_upload_def example_file_def
        upload_failure_def)
  have h2: "fst (kb_urls_loop example_download [''ftp://h/b.pdf''] ([], [])) = []"
    by (simp add: valid_kb_url_def)
  have e: "engine_calls tenant_with_hybrid = []"
    by (simp add: tenant_with_hybrid_eq)
  from empty_aggregate_never_reaches_the_engine[where up = failing_upload and d = "''false''"
      and files = "[example_file]" and env = example_env and eng = engine_ok
      and st = tenant_with_hybrid and u = "''a@b.c''" and g = "''g1''" and dl = example_download
      and urls = "[''ftp://h/b.pdf'']" and rag = 0] h1 h2 e
  show ?thesis by simp
qed

lemma store_files_loop_stored:
  "store_files_loop up b files ([], [])
     = (map (\<lambda>f. process_uploaded_file_to_r2 up f b) files, stored_locations up b files)"
  by (simp add: store_files_loop_result stored_locations_def)

lemma upload_chat_files_raises:
  assumes "get_or_create_rag_instance env st u g (Passed (Some gn)) Omitted Omitted Omitted = (Inl e, st1)"
  shows "upload_chat_files_endpoint env up eng st files u g gn d = (Inl e, st1)"
  using assms by (simp add: upload_chat_files_endpoint_def store_files_loop_stored)

lemma upload_chat_files_nothing_stored:
  assumes "get_or_create_rag_instance env st u g (Passed (Some gn)) Omitted Omitted Omitted = (Inr rag, st1)"
    and "stored_locations up (lower d = ''true'') files = []"
  shows "upload_chat_files_endpoint env up eng st files u g gn d =
           (Inr (chat_files_response True ''Processed and indexed 0 files'' [] False), st1)"
  using assms by (simp add: upload_chat_files_endpoint_def store_files_loop_stored)

lemma upload_chat_files_indexed:
  assumes "get_or_create_rag_instance env st u g (Passed (Some gn)) Omitted Omitted Omitted = (Inr rag, st1)"
    and "stored_locations up (lower d = ''true'') files \<noteq> []"
    and "eng (chat_files_call (lower d = ''true'') rag u g (stored_locations up (lower d = ''true'') files)) = None"
  shows "upload_chat_files_endpoint env up eng st files u g gn d =
           (Inr (chat_files_response True
                   (''Processed and indexed ''
                      @ str_nat (length (stored_locations up (lower d = ''true'') files)) @ '' files'')
                   (stored_locations up (lower d = ''true'') files) True),
            st1\<lparr>engine_calls := engine_calls st1
                   @ [chat_files_call (lower d = ''true'') rag u g
                        (stored_locations up (lower d = ''true'') files)]\<rparr>)"
  using assms
  by (simp add: upload_chat_files_endpoint_def store_files_loop_stored call_engine_def
      chat_files_call_def Let_def)

lemma upload_chat_files_index_error:
  assumes "get_or_create_rag_instance env st u g (Passed (Some gn)) Omitted Omitted Omitted = (Inr rag, st1)"
    and "stored_locations up (lower d = ''true'') files \<noteq> []"
    and "eng (chat_files_call (lower d = ''true'') rag u g (stored_locations up (lower d = ''true'') files)) = Some m"
  shows "upload_chat_files_endpoint env up eng st files u g gn d =
           (Inr (chat_files_response False
                   (''Failed to index ''
                      @ str_nat (length (stored_locations up (lower d = ''true'') files))
                      @ '' files: '' @ m)
                   (stored_locations up (lower d = ''true'') files) False),
            st1\<lparr>engine_calls := engine_calls st1
                   @ [chat_files_call (lower d = ''true'') rag u g
                        (stored_locations up (lower d = ''true'') files)]\<rparr>)"
  using assms
  by (simp add: upload_chat_files_endpoint_def store_files_loop_stored call_engine_def
      chat_files_call_def Let_def)


text \<open>
  C10. \<open>upload_chat_files_endpoint\<close> indexes before it answers: success = false with
  the error message when the index update raises, success = true with the stored
  locations when at least one file was stored and indexing succeeds, and success = true
  with an empty list and processing = false when every file fails to store.

  The last part fails when the session cannot be resolved: the endpoint resolves the
  session before it looks at the list, and for a new tenant without \<open>OPENAI_API_KEY\<close>
  the \<open>ValueError\<close> leaves the endpoint, so no such response is made.
\<close>

theorem chat_files_unconfigured_resolve_raises:
  "snd (store_files_loop failing_upload (lower ''true'' = ''true'') [example_file] ([], [])) = []
   \<and> upload_chat_files_endpoint empty_env failing_upload engine_ok initial_state [example_file]
        ''a@b.c'' ''g1'' ''My GPT'' ''true''
       = (Inl (ValueError ''OPENAI_API_KEY not set in environment.''), initial_state)"
  by (simp add: upload_chat_files_endpoint_def process_uploaded_file_to_r2_def failing_upload_def
      example_file_def upload_failure_def get_or_create_rag_instance_def empty_env_def
      initial_state_def getenv_def)

text \<open>
  C10, as amended. Provided the session resolves (it exists, or the mandatory
  configuration is present), the response is made after the index update: success =
  true, an empty list and processing = false when no file was stored, with no call on
  the engine; success = true, the stored locations and processing = true when the
  index update returns; success = false, the message ending in the error's text, the
  stored locations and processing = false when it raises.
\<close>

theorem chat_files_indexed_before_response:
  assumes "get_or_create_rag_instance env st u g (Passed (Some gn)) Omitted Omitted Omitted
             = (Inr rag, st1)"
  shows "(stored_locations up (lower d = ''true'') files = [] \<longrightarrow>
            upload_chat_files_endpoint env up eng st files u g gn d =
              (Inr (chat_files_response True ''Processed and indexed 0 files'' [] False), st1))
       \<and> (stored_locations up (lower d = ''true'') files \<noteq> []
            \<and> eng (chat_files_call (lower d = ''true'') rag u g
                      (stored_locations up (lower d = ''true'') files)) = None \<longrightarrow>
            upload_chat_files_endpoint env up eng st files u g gn d =
              (Inr (chat_files_response True
                      (''Processed and indexed ''
                         @ str_nat (length (stored_locations up (lower d = ''true'') files))
                         @ '' files'')
                      (stored_locations up (lower d = ''true'') files) True),
               st1\<lparr>engine_calls := engine_calls st1
                      @ [chat_files_call (lower d = ''true'') rag u g
                           (stored_locations up (lower d = ''true'') files)]\<rparr>))
       \<and> (\<forall>m. stored_locations up (lower d = ''true'') files \<noteq> []
                \<and> eng (chat_files_call (lower d = ''true'') rag u g
                          (stored_locations up (lower d = ''true'') files)) = Some m \<longrightarrow>
            upload_chat_files_endpoint env up eng st files u g gn d =
              (Inr (chat_files_response False
                      (''Failed to index ''
                         @ str_nat (length (stored_locations up (lower d = ''true'') files))
                         @ '' files: '' @ m)
                      (stored_locations up (lower d = ''true'') files) False),
               st1\<lparr>engine_calls := engine_calls st1
                      @ [chat_files_call (lower d = ''true'') rag u g
                           (stored_locations up (lower d = ''true'') files)]\<rparr>))"
  using upload_chat_files_nothing_stored[OF assms] upload_chat_files_indexed[OF assms]
    upload_chat_files_index_error[OF assms]
  by blast

theorem chat_files_indexed_before_response_witness:
  "fst (get_or_create_rag_instance example_env tenant_with_hybrid ''a@b.c'' ''g1''
          (Passed (Some ''My GPT'')) Omitted Omitted Omitted) = Inr 0
   \<and> stored_locations failing_upload (lower ''true'' = ''true'') [example_file] = []
   \<and> fst (upload_chat_files_endpoint example_env failing_upload engine_ok tenant_with_hybrid
             [example_file] ''a@b.c'' ''g1'' ''My GPT'' ''true'')
       = Inr (chat_files_response True ''Processed and indexed 0 files'' [] False)
   \<and> stored_locations example_upload (lower ''true'' = ''true'') [example_file] = [''user_docs/a.pdf'']
   \<and> fst (upload_chat_files_endpoint example_env example_upload engine_ok tenant_with_hybrid
             [example_file] ''a@b.c'' ''g1'' ''My GPT'' ''true'')
       = Inr (chat_files_response True ''Processed and indexed 1 files'' [''user_docs/a.pdf''] True)
   \<and> engine_calls (snd (upload_chat_files_endpoint example_env example_upload engine_ok
                           tenant_with_hybrid [example_file] ''a@b.c'' ''g1'' ''My GPT'' ''true''))
       = [update_user_documents_from_r2 0 ''user_a_b_c_gpt_g1'' [''user_docs/a.pdf'']]
   \<and> fst (upload_chat_files_endpoint example_env example_upload engine_down tenant_with_hybrid
             [example_file] ''a@b.c'' ''g1'' ''My GPT'' ''true'')
       = Inr (chat_files_response False ''Failed to index 1 files: qdrant unreachable''
                [''user_docs/a.pdf''] False)"
proof -
  let ?r = "get_or_create_rag_instance example_env tenant_with_hybrid ''a@b.c'' ''g1''
          (Passed (Some ''My GPT'')) Omitted Omitted Omitted"
  have f: "fst ?r = Inr 0"
    by (simp add: get_or_create_rag_instance_def tenant_with_hybrid_eq)
  then have r: "?r = (Inr 0, snd ?r)"
    by (metis prod.collapse)
  have e: "engine_calls (snd ?r) = []"
    by (simp add: get_or_create_rag_instance_def tenant_with_hybrid_eq)
  have l: "lower ''true'' = ''true''"
    by (simp add: lower_def lower_char_def)
  have s0: "stored_locations failing_upload True [example_file] = []"
    by (simp add: stored_locations_def process_uploaded_file_to_r2_def failing_upload_def
        example_file_def upload_failure_def)
  have s1: "stored_locations example_upload True [example_file] = [''user_docs/a.pdf'']"
    by (simp add: stored_locations_def process_uploaded_file_to_r2_def example_upload_def
        example_file_def)
  have c: "chat_files_call True 0 ''a@b.c'' ''g1'' [''user_docs/a.pdf'']
             = update_user_documents_from_r2 0 ''user_a_b_c_gpt_g1'' [''user_docs/a.pdf'']"
    by (simp add: chat_files_call_def get_session_id_def replace_def)
  note t = chat_files_indexed_before_response[OF r]
  from t[of failing_upload "''true''" "[example_file]" engine_ok] l s0
  have a: "fst (upload_chat_files_endpoint example_env failing_upload engine_ok tenant_with_hybrid
             [example_file] ''a@b.c'' ''g1'' ''My GPT'' ''true'')
       = Inr (chat_files_response True ''Processed and indexed 0 files'' [] False)"
    by simp
  from t[of example_upload "''true''" "[example_file]" engine_ok] l s1 c e
  have b: "fst (upload_chat_files_endpoint example_env example_upload engine_ok tenant_with_hybrid
             [example_file] ''a@b.c'' ''g1'' ''My GPT'' ''true'')
       = Inr (chat_files_response True ''Processed and indexed 1 files'' [''user_docs/a.pdf''] True)"
    "engine_calls (snd (upload_chat_files_endpoint example_env example_upload engine_ok
                           tenant_with_hybrid [example_file] ''a@b.c'' ''g1'' ''My GPT'' ''true''))
       = [update_user_documents_from_r2 0 ''user_a_b_c_gpt_g1'' [''user_docs/a.pdf'']]"
    by (simp_all add: engine_ok_def)
  from t[of example_upload "''true''" "[example_file]" engine_down] l s1 c
  have d: "fst (upload_chat_files_endpoint example_env example_upload engine_down tenant_with_hybrid
             [example_file] ''a@b.c'' ''g1'' ''My GPT'' ''true'')
       = Inr (chat_files_response False ''Failed to index 1 files: qdrant unreachable''
                [''user_docs/a.pdf''] False)"
    by (simp add: engine_down_def)
  from f l s0 s1 a b d show ?thesis by simp
qed

section \<open>Properties of streaming\<close>

lemma is_error_chunk_error_chunk [simp]: "is_error_chunk (error_chunk m)"
  by (simp add: is_error_chunk_def error_chunk_def)

lemma generate_loop_no_disconnect:
  "generate_loop dumps None chunks fin out sent taken =
     (let pre = takeWhile (encodable dumps) chunks;
          out' = out @ map (\<lambda>c. sse_frame (projr (dumps c))) pre
      in if length pre = length chunks then
           (case fin of
              StopAsyncIteration \<Rightarrow>
                \<lparr> frames = out', emitted = sent @ pre, consumed = taken @ pre,
                  terminal = Completed \<rparr>
            | Raise e \<Rightarrow> except_clause dumps out' (sent @ pre) (taken @ pre) e)
         else
           except_clause dumps out' (sent @ pre) (taken @ pre @ [chunks ! length pre])
             (Exception (projl (dumps (chunks ! length pre)))))"
proof (induction chunks arbitrary: out sent taken)
  case Nil
  then show ?case by (simp split: stream_end.splits)
next
  case (Cons c cs)
  show ?case
  proof (cases "dumps c")
    case (Inl m)
    then show ?thesis by (simp add: encodable_def)
  next
    case (Inr s)
    then show ?thesis
      by (simp add: encodable_def Cons.IH Let_def split: stream_end.splits)
  qed
qed

lemma generate_loop_disconnect:
  "length out \<le> n \<Longrightarrow>
   generate_loop dumps (Some n) chunks fin out sent taken =
     (if n - length out \<le> length (takeWhile (encodable dumps) chunks) then
        \<lparr> frames = out @ map (\<lambda>c. sse_frame (projr (dumps c))) (take (n - length out) chunks),
          emitted = sent @ take (n - length out) chunks,
          consumed = taken @ take (n - length out) chunks,
          terminal = Unhandled CancelledError \<rparr>
      else generate_loop dumps None chunks fin out sent taken)"
proof (induction chunks arbitrary: out sent taken)
  case Nil
  then show ?case by (simp add: except_clause_def)
next
  case (Cons c cs)
  show ?case
  proof (cases "n = length out")
    case True
    then show ?thesis by (simp add: except_clause_def)
  next
    case False
    with Cons.prems have lt: "length out < n" by simp
    show ?thesis
    proof (cases "dumps c")
      case (Inl m)
      with lt show ?thesis by (simp add: encodable_def)
    next
      case (Inr s)
      from lt have "length (out @ [sse_frame s]) \<le> n" by simp
      from Cons.IH[OF this, of "sent @ [c]" "taken @ [c]"] lt Inr
      show ?thesis
        by (simp add: encodable_def take_Cons' Suc_diff_le diff_Suc split: nat.splits)
    qed
  qed
qed


lemma takeWhile_all_length:
  "(length (takeWhile P xs) = length xs) = (\<forall>x \<in> set xs. P x)"
  by (metis takeWhile_eq_all_conv length_takeWhile_le takeWhile_eq_take take_all_iff order_refl)

lemma generate_cases [case_names cancelled completed raised unencodable]:
  fixes dumps disconnect chunks fin
  defines "r \<equiv> generate dumps disconnect chunks fin"
  defines "F \<equiv> \<lambda>c. sse_frame (projr (dumps c))"
  obtains
    n where "disconnect = Some n" "n \<le> length chunks"
      "\<forall>c \<in> set (take n chunks). encodable dumps c"
      "r = \<lparr> frames = map F (take n chunks), emitted = take n chunks,
             consumed = take n chunks, terminal = Unhandled CancelledError \<rparr>"
  | "fin = StopAsyncIteration" "\<forall>c \<in> set chunks. encodable dumps c"
      "disconnect = None \<or> (\<exists>n. disconnect = Some n \<and> length chunks < n)"
      "r = \<lparr> frames = map F chunks, emitted = chunks, consumed = chunks, terminal = Completed \<rparr>"
  | e where "fin = Raise e" "\<forall>c \<in> set chunks. encodable dumps c"
      "disconnect = None \<or> (\<exists>n. disconnect = Some n \<and> length chunks < n)"
      "r = except_clause dumps (map F chunks) chunks chunks e"
  | pre bad post where "chunks = pre @ bad # post" "\<forall>c \<in> set pre. encodable dumps c"
      "\<not> encodable dumps bad"
      "disconnect = None \<or> (\<exists>n. disconnect = Some n \<and> length pre < n)"
      "r = except_clause dumps (map F pre) pre (pre @ [bad]) (Exception (projl (dumps bad)))"
proof -
  let ?pre = "takeWhile (encodable dumps) chunks"
  have pre_enc: "\<forall>c \<in> set ?pre. encodable dumps c"
    by (auto dest: set_takeWhileD)
  have pre_take: "?pre = take (length ?pre) chunks"
    by (rule takeWhile_eq_take)
  show thesis
  proof (cases "\<exists>n. disconnect = Some n \<and> n \<le> length ?pre")
    case True
    then obtain n where n: "disconnect = Some n" "n \<le> length ?pre" by blast
    have le: "n \<le> length chunks"
      using n(2) length_takeWhile_le[of "encodable dumps" chunks] by simp
    have "take n chunks = take n ?pre"
      using n(2) pre_take by (metis min.absorb2 take_take min.commute)
    then have enc: "\<forall>c \<in> set (take n chunks). encodable dumps c"
      using pre_enc by (auto dest: in_set_takeD)
    have "r = \<lparr> frames = map F (take n chunks), emitted = take n chunks,
             consumed = take n chunks, terminal = Unhandled CancelledError \<rparr>"
      using generate_loop_disconnect[of "[]" n dumps chunks fin "[]" "[]"] n
      by (simp add: r_def generate_def F_def)
    with n(1) le enc show ?thesis by (rule that(1))
  next
    case False
    then have d: "disconnect = None \<or> (\<exists>n. disconnect = Some n \<and> length ?pre < n)"
      by (cases disconnect) auto
    have r: "r = generate_loop dumps None chunks fin [] [] []"
    proof (cases disconnect)
      case None
      then show ?thesis by (simp add: r_def generate_def)
    next
      case (Some n)
      with False have "\<not> n \<le> length ?pre" by simp
      with Some generate_loop_disconnect[of "[]" n dumps chunks fin "[]" "[]"]
      show ?thesis by (simp add: r_def generate_def)
    qed
    show ?thesis
    proof (cases "length ?pre = length chunks")
      case True
      then have all: "\<forall>c \<in> set chunks. encodable dumps c"
        by (simp add: takeWhile_all_length)
      then have p: "?pre = chunks" by (simp add: takeWhile_eq_all_conv)
      from d True have d': "disconnect = None \<or> (\<exists>n. disconnect = Some n \<and> length chunks < n)"
        by simp
      show ?thesis
      proof (cases fin)
        case StopAsyncIteration
        with r p have "r = \<lparr> frames = map F chunks, emitted = chunks, consumed = chunks,
            terminal = Completed \<rparr>"
          by (simp add: generate_loop_no_disconnect F_def)
        with StopAsyncIteration all d' show ?thesis by (rule that(2))
      next
        case (Raise e)
        with r p have "r = except_clause dumps (map F chunks) chunks chunks e"
          by (simp add: generate_loop_no_disconnect F_def)
        with Raise all d' show ?thesis by (rule that(3))
      qed
    next
      case False
      then have lt: "length ?pre < length chunks"
        using length_takeWhile_le[of "encodable dumps" chunks] by simp
      define bad where "bad = chunks ! length ?pre"
      define post where "post = drop (Suc (length ?pre)) chunks"
      have c: "chunks = ?pre @ bad # post"
        using lt pre_take unfolding bad_def post_def
        by (metis id_take_nth_drop)
      have nb: "\<not> encodable dumps bad"
        using lt unfolding bad_def by (rule nth_length_takeWhile)
      from r False have "r = except_clause dumps (map F ?pre) ?pre (?pre @ [bad])
          (Exception (projl (dumps bad)))"
        by (simp add: generate_loop_no_disconnect F_def bad_def Let_def)
      with c pre_enc nb d show ?thesis by (rule that(4))
    qed
  qed
qed


lemma except_clause_shape:
  "except_clause dumps out sent taken e =
     (if isinstance_Exception e \<and> \<not> isl (dumps (error_chunk (str_exception e))) then
        \<lparr> frames = out @ [sse_frame (projr (dumps (error_chunk (str_exception e))))],
          emitted = sent @ [error_chunk (str_exception e)],
          consumed = taken, terminal = ErrorFrame \<rparr>
      else
        \<lparr> frames = out, emitted = sent, consumed = taken,
          terminal = (if isinstance_Exception e
                      then Unhandled (Exception (projl (dumps (error_chunk (str_exception e)))))
                      else Unhandled e) \<rparr>)"
  by (simp add: except_clause_def split: sum.splits)

lemma no_error_chunk_in_take:
  "\<forall>c \<in> set chunks. \<not> is_error_chunk c \<Longrightarrow> filter is_error_chunk (take k chunks) = []"
  by (auto simp: filter_empty_conv dest: in_set_takeD)


lemma ascii_dumps_content [simp]:
  "ascii_dumps (content_chunk t) = Inr (''{\"type\": \"content\", \"data\": \"'' @ t @ ''\"}'')"
  by (simp add: ascii_dumps_def content_chunk_def)

lemma ascii_dumps_error [simp]:
  "ascii_dumps (error_chunk m) = Inr (''{\"type\": \"error\", \"data\": {\"error\": \"'' @ m @ ''\"}}'')"
  by (simp add: ascii_dumps_def error_chunk_def)

lemma ascii_dumps_object [simp]:
  "ascii_dumps (PyObject t) = Inl (''Object of type '' @ t @ '' is not JSON serializable'')"
  by (simp add: ascii_dumps_def)

lemma content_not_error [simp]: "\<not> is_error_chunk (content_chunk t)"
  by (simp add: is_error_chunk_def content_chunk_def)

text \<open>
  C6. When the consumer disconnects, the cancellation is observed at the suspension
  point between fragments and nothing is produced or emitted afterwards: for a consumer
  that goes away after \<open>n\<close> frames, at most \<open>n\<close> fragments have been taken from the
  engine, in their order, and at most \<open>n\<close> frames have been emitted, whatever
  \<open>json.dumps\<close> does; when it encodes the first \<open>n\<close> fragments, the frames are exactly
  \<open>data: <json>\<close> and an empty line for each of them, and the \<open>CancelledError\<close> leaves
  the generator, whose \<open>except Exception\<close> does not turn it into a frame.
\<close>

theorem cancelled_stream_emits_nothing_more:
  assumes "n \<le> length chunks"
  shows "(let r = generate dumps (Some n) chunks fin
          in length (consumed r) \<le> n \<and> length (frames r) \<le> n
             \<and> consumed r = take (length (consumed r)) chunks
             \<and> terminal r \<noteq> Completed
             \<and> ((\<forall>c \<in> set (take n chunks). \<not> isl (dumps c)) \<longrightarrow>
                  r = \<lparr> frames = map (\<lambda>c. ''data: '' @ projr (dumps c) @ [CHR 0x0A, CHR 0x0A])
                                    (take n chunks),
                        emitted = take n chunks, consumed = take n chunks,
                        terminal = Unhandled CancelledError \<rparr>))"
proof (cases rule: generate_cases[where dumps = dumps and disconnect = "Some n"
      and chunks = chunks and fin = fin])
  case (cancelled n')
  with assms show ?thesis by (simp add: sse_frame_def Let_def)
next
  case completed
  with assms show ?thesis by simp
next
  case (raised e)
  with assms show ?thesis by simp
next
  case (unencodable pre bad post)
  from unencodable(4) have lt: "length pre < n" by simp
  with unencodable(1) have "take n chunks ! length pre = bad"
    "length pre < length (take n chunks)"
    by (simp_all add: nth_append)
  then have "bad \<in> set (take n chunks)"
    using nth_mem by blast
  with unencodable(3) have no: "\<not> (\<forall>c \<in> set (take n chunks). \<not> isl (dumps c))"
    by (auto simp: encodable_def)
  have t: "take (Suc (length pre)) chunks = pre @ [bad]"
    using unencodable(1) by simp
  from unencodable(5) lt no t show ?thesis
    by (simp add: except_clause_shape Let_def)
qed

theorem cancelled_stream_emits_nothing_more_witness:
  "(1::nat) \<le> length [content_chunk ''Hel'', content_chunk ''lo'']
   \<and> \<not> isl (ascii_dumps (content_chunk ''Hel''))
   \<and> generate ascii_dumps (Some 1) [content_chunk ''Hel'', content_chunk ''lo''] StopAsyncIteration
       = \<lparr> frames = [''data: {\"type\": \"content\", \"data\": \"Hel\"}'' @ [CHR 0x0A, CHR 0x0A]],
           emitted = [content_chunk ''Hel''], consumed = [content_chunk ''Hel''],
           terminal = Unhandled CancelledError \<rparr>"
proof -
  have h: "(1::nat) \<le> length [content_chunk ''Hel'', content_chunk ''lo'']" by simp
  have e: "\<forall>c \<in> set (take 1 [content_chunk ''Hel'', content_chunk ''lo'']). \<not> isl (ascii_dumps c)"
    by simp
  from cancelled_stream_emits_nothing_more[OF h, of ascii_dumps StopAsyncIteration] h e
  show ?thesis by (simp add: Let_def)
qed

text \<open>
  C7. For every sequence of fragments, each fragment is emitted as exactly one frame,
  in the order of delivery, and the frame list is the fragment list mapped through the
  JSON encoding.

  \<open>json.dumps\<close> is called inside the \<open>try\<close>: a fragment that it cannot encode gets no
  frame of its own, the handler emits the error frame in its place, and the fragments
  after it are not emitted. When the engine raises, the frame list is longer than the
  fragment list by the error frame.
\<close>

theorem unencodable_fragment_gets_no_frame:
  "generate ascii_dumps None
     [content_chunk ''Hel'', PyObject ''datetime'', content_chunk ''lo''] StopAsyncIteration
     = \<lparr> frames =
           [''data: {\"type\": \"content\", \"data\": \"Hel\"}'' @ [CHR 0x0A, CHR 0x0A],
            ''data: {\"type\": \"error\", \"data\": {\"error\": \"Object of type datetime is not JSON serializable\"}}''
              @ [CHR 0x0A, CHR 0x0A]],
         emitted = [content_chunk ''Hel'',
                    error_chunk ''Object of type datetime is not JSON serializable''],
         consumed = [content_chunk ''Hel'', PyObject ''datetime''],
         terminal = ErrorFrame \<rparr>
   \<and> frames (generate ascii_dumps None [content_chunk ''Hel''] (Raise (Exception ''boom'')))
       = [''data: {\"type\": \"content\", \"data\": \"Hel\"}'' @ [CHR 0x0A, CHR 0x0A],
          ''data: {\"type\": \"error\", \"data\": {\"error\": \"boom\"}}'' @ [CHR 0x0A, CHR 0x0A]]"
  by (simp add: generate_def except_clause_def sse_frame_def)

text \<open>
  C7, as amended. When \<open>json.dumps\<close> encodes every fragment of the sequence, every
  fragment taken from the engine is emitted as exactly one frame, the text \<open>data: \<close>,
  its encoding and an empty line, in the order of delivery, with no fragment split,
  merged or reordered; these frames are followed by one more only when the engine
  raised, and a stream that runs to the end of the sequence emits exactly the mapped
  list. When a fragment cannot be encoded, the fragments before it have their frames,
  it and the fragments after it have none, and at most one more frame follows.
\<close>

theorem fragments_one_frame_each_in_order:
  "(let r = generate dumps disconnect chunks fin;
        F = (\<lambda>c. ''data: '' @ projr (dumps c) @ [CHR 0x0A, CHR 0x0A])
    in ((\<forall>c \<in> set chunks. \<not> isl (dumps c)) \<longrightarrow>
          take (length (consumed r)) (frames r) = map F (consumed r)
          \<and> length (frames r)
              = length (consumed r) + (if terminal r = ErrorFrame then 1 else 0)
          \<and> consumed r = take (length (consumed r)) chunks
          \<and> (disconnect = None \<longrightarrow> consumed r = chunks)
          \<and> (disconnect = None \<and> fin = StopAsyncIteration \<longrightarrow> frames r = map F chunks))
     \<and> (\<forall>pre bad post.
            chunks = pre @ bad # post \<and> (\<forall>c \<in> set pre. \<not> isl (dumps c)) \<and> isl (dumps bad)
            \<and> (disconnect = None \<or> (\<exists>n. disconnect = Some n \<and> length pre < n)) \<longrightarrow>
            take (length pre) (frames r) = map F pre
            \<and> length (frames r) \<le> length pre + 1
            \<and> consumed r = pre @ [bad]
            \<and> terminal r \<noteq> Completed))"
proof -
  let ?r = "generate dumps disconnect chunks fin"
  let ?F = "\<lambda>c. ''data: '' @ projr (dumps c) @ [CHR 0x0A, CHR 0x0A]"
  have A: "take (length (consumed ?r)) (frames ?r) = map ?F (consumed ?r)
          \<and> length (frames ?r)
              = length (consumed ?r) + (if terminal ?r = ErrorFrame then 1 else 0)
          \<and> consumed ?r = take (length (consumed ?r)) chunks
          \<and> (disconnect = None \<longrightarrow> consumed ?r = chunks)
          \<and> (disconnect = None \<and> fin = StopAsyncIteration \<longrightarrow> frames ?r = map ?F chunks)"
    if all: "\<forall>c \<in> set chunks. \<not> isl (dumps c)"
  proof (cases rule: generate_cases[where dumps = dumps and disconnect = disconnect
        and chunks = chunks and fin = fin])
    case (cancelled n)
    then show ?thesis by (auto simp: sse_frame_def)
  next
    case completed
    then show ?thesis by (auto simp: sse_frame_def)
  next
    case (raised e)
    then show ?thesis by (auto simp: except_clause_shape sse_frame_def)
  next
    case (unencodable pre bad post)
    with all show ?thesis by (simp add: encodable_def)
  qed
  have B: "take (length pre) (frames ?r) = map ?F pre
            \<and> length (frames ?r) \<le> length pre + 1
            \<and> consumed ?r = pre @ [bad]
            \<and> terminal ?r \<noteq> Completed"
    if c: "chunks = pre @ bad # post" and p: "\<forall>c \<in> set pre. \<not> isl (dumps c)"
      and b: "isl (dumps bad)"
      and d: "disconnect = None \<or> (\<exists>n. disconnect = Some n \<and> length pre < n)"
    for pre bad post
  proof -
    have tw: "takeWhile (encodable dumps) chunks = pre"
      using c p b by (simp add: encodable_def takeWhile_append2)
    show ?thesis
    proof (cases rule: generate_cases[where dumps = dumps and disconnect = disconnect
          and chunks = chunks and fin = fin])
      case (cancelled n)
      with d have "length pre < n" by simp
      with c cancelled(2) have "take n chunks ! length pre = bad"
        "length pre < length (take n chunks)"
        by (simp_all add: nth_append)
      then have "bad \<in> set (take n chunks)" using nth_mem by blast
      with cancelled(3) b show ?thesis by (simp add: encodable_def)
    next
      case completed
      with c b show ?thesis by (simp add: encodable_def)
    next
      case (raised e)
      with c b show ?thesis by (simp add: encodable_def)
    next
      case (unencodable pre' bad' post')
      then have "takeWhile (encodable dumps) chunks = pre'"
        by (simp add: takeWhile_append2)
      with tw have "pre' = pre" by simp
      with unencodable(1) c have "bad' = bad" by simp
      with unencodable(5) \<open>pre' = pre\<close> show ?thesis
        by (simp add: except_clause_shape sse_frame_def)
    qed
  qed
  from A B show ?thesis unfolding Let_def by blast
qed

theorem fragments_one_frame_each_in_order_witness:
  "\<not> isl (ascii_dumps (content_chunk ''Hel'')) \<and> \<not> isl (ascii_dumps (content_chunk ''lo''))
   \<and> frames (generate ascii_dumps None [content_chunk ''Hel'', content_chunk ''lo'']
                StopAsyncIteration)
       = [''data: {\"type\": \"content\", \"data\": \"Hel\"}'' @ [CHR 0x0A, CHR 0x0A],
          ''data: {\"type\": \"content\", \"data\": \"lo\"}'' @ [CHR 0x0A, CHR 0x0A]]
   \<and> consumed (generate ascii_dumps None [content_chunk ''Hel'', content_chunk ''lo'']
                  StopAsyncIteration)
       = [content_chunk ''Hel'', content_chunk ''lo'']
   \<and> isl (ascii_dumps (PyObject ''datetime''))
   \<and> consumed (generate ascii_dumps None
                  [content_chunk ''Hel'', PyObject ''datetime'', content_chunk ''lo'']
                  StopAsyncIteration)
       = [content_chunk ''Hel'', PyObject ''datetime'']
   \<and> take 1 (frames (generate ascii_dumps None
                  [content_chunk ''Hel'', PyObject ''datetime'', content_chunk ''lo'']
                  StopAsyncIteration))
       = [''data: {\"type\": \"content\", \"data\": \"Hel\"}'' @ [CHR 0x0A, CHR 0x0A]]"
proof -
  have a: "\<forall>c \<in> set [content_chunk ''Hel'', content_chunk ''lo'']. \<not> isl (ascii_dumps c)"
    by simp
  have b: "isl (ascii_dumps (PyObject ''datetime''))" by simp
  have c: "[content_chunk ''Hel'', PyObject ''datetime'', content_chunk ''lo'']
             = [content_chunk ''Hel''] @ PyObject ''datetime'' # [content_chunk ''lo'']
           \<and> (\<forall>c \<in> set [content_chunk ''Hel'']. \<not> isl (ascii_dumps c))
           \<and> isl (ascii_dumps (PyObject ''datetime''))
           \<and> ((None :: nat option) = None
                \<or> (\<exists>n. (None :: nat option) = Some n \<and> length [content_chunk ''Hel''] < n))"
    by simp
  from fragments_one_frame_each_in_order[of ascii_dumps None
      "[content_chunk ''Hel'', content_chunk ''lo'']" StopAsyncIteration] a
  have p: "frames (generate ascii_dumps None [content_chunk ''Hel'', content_chunk ''lo'']
                StopAsyncIteration)
       = [''data: {\"type\": \"content\", \"data\": \"Hel\"}'' @ [CHR 0x0A, CHR 0x0A],
          ''data: {\"type\": \"content\", \"data\": \"lo\"}'' @ [CHR 0x0A, CHR 0x0A]]"
    "consumed (generate ascii_dumps None [content_chunk ''Hel'', content_chunk ''lo'']
                  StopAsyncIteration)
       = [content_chunk ''Hel'', content_chunk ''lo'']"
    by (simp_all add: Let_def)
  from fragments_one_frame_each_in_order[of ascii_dumps None
      "[content_chunk ''Hel'', PyObject ''datetime'', content_chunk ''lo'']" StopAsyncIteration]
  have "\<forall>pre bad post.
      [content_chunk ''Hel'', PyObject ''datetime'', content_chunk ''lo''] = pre @ bad # post
      \<and> (\<forall>c \<in> set pre. \<not> isl (ascii_dumps c)) \<and> isl (ascii_dumps bad)
      \<and> ((None :: nat option) = None \<or> (\<exists>n. (None :: nat option) = Some n \<and> length pre < n)) \<longrightarrow>
      take (length pre) (frames (generate ascii_dumps None
                  [content_chunk ''Hel'', PyObject ''datetime'', content_chunk ''lo'']
                  StopAsyncIteration))
        = map (\<lambda>c. ''data: '' @ projr (ascii_dumps c) @ [CHR 0x0A, CHR 0x0A]) pre
      \<and> consumed (generate ascii_dumps None
                  [content_chunk ''Hel'', PyObject ''datetime'', content_chunk ''lo'']
                  StopAsyncIteration) = pre @ [bad]"
    unfolding Let_def by blast
  from this[rule_format, OF c]
  have q: "consumed (generate ascii_dumps None
                  [content_chunk ''Hel'', PyObject ''datetime'', content_chunk ''lo'']
                  StopAsyncIteration)
       = [content_chunk ''Hel'', PyObject ''datetime'']"
    "take 1 (frames (generate ascii_dumps None
                  [content_chunk ''Hel'', PyObject ''datetime'', content_chunk ''lo'']
                  StopAsyncIteration))
       = [''data: {\"type\": \"content\", \"data\": \"Hel\"}'' @ [CHR 0x0A, CHR 0x0A]]"
    by simp_all
  from a b p q show ?thesis by simp
qed

text \<open>
  C5. Every chat stream ends in exactly one of two ways, the engine's sequence
  completes or one distinguished error frame is emitted, never both and never
  neither, and a stream has at most one error frame.

  A stream that the consumer cancels ends in neither way, and so does one whose
  engine raises an exception that is not an \<open>Exception\<close>. The generator passes the
  engine's fragments through unread, so a fragment of type \<open>"error"\<close> followed by an
  engine error gives two error frames in one stream, and the frame of such a fragment
  is the frame the handler would emit: the same frames end a stream that completed and
  one that failed.
\<close>

theorem stream_without_single_distinguished_ending:
  "terminal (generate ascii_dumps (Some 1) [content_chunk ''Hel'', content_chunk ''lo'']
               StopAsyncIteration) \<noteq> Completed
   \<and> terminal (generate ascii_dumps (Some 1) [content_chunk ''Hel'', content_chunk ''lo'']
               StopAsyncIteration) \<noteq> ErrorFrame
   \<and> generate ascii_dumps None [error_chunk ''boom''] (Raise (Exception ''boom''))
       = \<lparr> frames =
             [''data: {\"type\": \"error\", \"data\": {\"error\": \"boom\"}}'' @ [CHR 0x0A, CHR 0x0A],
              ''data: {\"type\": \"error\", \"data\": {\"error\": \"boom\"}}'' @ [CHR 0x0A, CHR 0x0A]],
           emitted = [error_chunk ''boom'', error_chunk ''boom''],
           consumed = [error_chunk ''boom''], terminal = ErrorFrame \<rparr>
   \<and> frames (generate ascii_dumps None [error_chunk ''boom''] StopAsyncIteration)
       = frames (generate ascii_dumps None [] (Raise (Exception ''boom'')))
   \<and> terminal (generate ascii_dumps None [error_chunk ''boom''] StopAsyncIteration) = Completed
   \<and> terminal (generate ascii_dumps None [] (Raise (Exception ''boom''))) = ErrorFrame
   \<and> generate ascii_dumps None [content_chunk ''Hel''] (Raise CancelledError)
       = \<lparr> frames = [''data: {\"type\": \"content\", \"data\": \"Hel\"}'' @ [CHR 0x0A, CHR 0x0A]],
           emitted = [content_chunk ''Hel''], consumed = [content_chunk ''Hel''],
           terminal = Unhandled CancelledError \<rparr>"
  by (simp add: generate_def except_clause_def sse_frame_def)

text \<open>
  C5, as amended. In every stream the frames are the encodings of the values emitted,
  and these are fragments of the engine, in order, followed by at most one chunk of
  the handler, which is of type \<open>"error"\<close> and is there exactly when the stream ended
  by the error frame; when no fragment of the engine is of type \<open>"error"\<close>, that chunk
  is the only value of this type in the stream. A stream that the consumer does not
  cancel, whose engine ends its sequence or raises an \<open>Exception\<close>, and whose error
  chunk \<open>json.dumps\<close> encodes, ends in exactly one of the two ways: it completes exactly
  when the sequence ended and every fragment was encoded, and then every fragment was
  emitted; otherwise the error frame is emitted, which carries \<open>str(e)\<close> when the engine
  raised \<open>e\<close>.
\<close>

theorem uncancelled_stream_ends_one_way:
  "(let r = generate dumps disconnect chunks fin;
        F = (\<lambda>c. ''data: '' @ projr (dumps c) @ [CHR 0x0A, CHR 0x0A])
    in frames r = map F (emitted r)
     \<and> (terminal r \<noteq> ErrorFrame \<longrightarrow> emitted r = take (length (emitted r)) chunks)
     \<and> (terminal r = ErrorFrame \<longrightarrow>
          (\<exists>m. emitted r = take (length (emitted r) - 1) chunks @ [error_chunk m]))
     \<and> ((\<forall>c \<in> set chunks. \<not> is_error_chunk c) \<longrightarrow>
          filter is_error_chunk (emitted r)
            = (if terminal r = ErrorFrame then [last (emitted r)] else []))
     \<and> ((disconnect = None \<or> (\<exists>n. disconnect = Some n \<and> length chunks < n))
          \<and> (fin = StopAsyncIteration \<or> (\<exists>e. fin = Raise e \<and> isinstance_Exception e))
          \<and> (\<forall>m. \<not> isl (dumps (error_chunk m))) \<longrightarrow>
            (terminal r = Completed \<or> terminal r = ErrorFrame)
            \<and> (terminal r = Completed
                 \<longleftrightarrow> fin = StopAsyncIteration \<and> (\<forall>c \<in> set chunks. \<not> isl (dumps c)))
            \<and> (terminal r = Completed \<longrightarrow> emitted r = chunks)
            \<and> ((\<forall>c \<in> set chunks. \<not> isl (dumps c)) \<longrightarrow>
                 (\<forall>e. fin = Raise e \<longrightarrow>
                    emitted r = chunks @ [error_chunk (str_exception e)]
                    \<and> terminal r = ErrorFrame))))"
proof (cases rule: generate_cases[where dumps = dumps and disconnect = disconnect
      and chunks = chunks and fin = fin])
  case (cancelled n)
  then show ?thesis
    by (auto simp: Let_def sse_frame_def no_error_chunk_in_take min_def)
next
  case completed
  then show ?thesis
    by (auto simp: Let_def sse_frame_def encodable_def filter_empty_conv)
next
  case (raised e)
  then show ?thesis
    by (auto simp: Let_def sse_frame_def encodable_def filter_empty_conv except_clause_shape)
next
  case (unencodable pre bad post)
  then show ?thesis
    by (auto simp: Let_def sse_frame_def encodable_def filter_empty_conv except_clause_shape)
qed

theorem uncancelled_stream_ends_one_way_witness:
  "\<not> isl (ascii_dumps (error_chunk ''boom''))
   \<and> \<not> is_error_chunk (content_chunk ''Hel'')
   \<and> isinstance_Exception (Exception ''boom'')
   \<and> generate ascii_dumps None [content_chunk ''Hel''] StopAsyncIteration
       = \<lparr> frames = [''data: {\"type\": \"content\", \"data\": \"Hel\"}'' @ [CHR 0x0A, CHR 0x0A]],
           emitted = [content_chunk ''Hel''], consumed = [content_chunk ''Hel''],
           terminal = Completed \<rparr>
   \<and> terminal (generate ascii_dumps None [content_chunk ''Hel''] (Raise (Exception ''boom'')))
       = ErrorFrame
   \<and> emitted (generate ascii_dumps None [content_chunk ''Hel''] (Raise (Exception ''boom'')))
       = [content_chunk ''Hel'', error_chunk ''boom'']
   \<and> frames (generate ascii_dumps None [content_chunk ''Hel''] (Raise (Exception ''boom'')))
       = [''data: {\"type\": \"content\", \"data\": \"Hel\"}'' @ [CHR 0x0A, CHR 0x0A],
          ''data: {\"type\": \"error\", \"data\": {\"error\": \"boom\"}}'' @ [CHR 0x0A, CHR 0x0A]]
   \<and> filter is_error_chunk
        (emitted (generate ascii_dumps None [content_chunk ''Hel''] (Raise (Exception ''boom''))))
       = [error_chunk ''boom'']"
proof -
  have h: "\<forall>m. \<not> isl (ascii_dumps (error_chunk m))"
    "\<forall>c \<in> set [content_chunk ''Hel'']. \<not> is_error_chunk c"
    "\<forall>c \<in> set [content_chunk ''Hel'']. \<not> isl (ascii_dumps c)"
    "isinstance_Exception (Exception ''boom'')"
    by simp_all
  have s: "generate ascii_dumps None [content_chunk ''Hel''] StopAsyncIteration
       = \<lparr> frames = [''data: {\"type\": \"content\", \"data\": \"Hel\"}'' @ [CHR 0x0A, CHR 0x0A]],
           emitted = [content_chunk ''Hel''], consumed = [content_chunk ''Hel''],
           terminal = Completed \<rparr>"
    by (simp add: generate_def sse_frame_def)
  from uncancelled_stream_ends_one_way[of ascii_dumps None "[content_chunk ''Hel'']"
      "Raise (Exception ''boom'')"] h
  have t: "terminal (generate ascii_dumps None [content_chunk ''Hel''] (Raise (Exception ''boom'')))
       = ErrorFrame"
    "emitted (generate ascii_dumps None [content_chunk ''Hel''] (Raise (Exception ''boom'')))
       = [content_chunk ''Hel'', error_chunk ''boom'']"
    "frames (generate ascii_dumps None [content_chunk ''Hel''] (Raise (Exception ''boom'')))
       = map (\<lambda>c. ''data: '' @ projr (ascii_dumps c) @ [CHR 0x0A, CHR 0x0A])
           (emitted (generate ascii_dumps None [content_chunk ''Hel''] (Raise (Exception ''boom''))))"
    by (simp_all add: Let_def)
  from h s t show ?thesis by simp
qed

section \<open>Properties of reset\<close>

lemma reset_forbidden:
  "\<not> in_development env \<Longrightarrow>
   dev_reset_gpt_context_endpoint env os eng st g =
     (\<lparr> status_code = 403,
        content = JDict [(''error'', JStr ''Endpoint only available in development.'')] \<rparr>, st)"
  by (simp add: dev_reset_gpt_context_endpoint_def in_development_def)

lemma reset_absent:
  "in_development env \<Longrightarrow> active_rag_sessions st g = None \<Longrightarrow>
   dev_reset_gpt_context_endpoint env os eng st g =
     (\<lparr> status_code = 404,
        content = JDict
          [(''status'', JStr ''not_found''),
           (''message'', JStr (''No active RAG context for gpt_id '' @ quoted g @ ''.''))] \<rparr>, st)"
  by (simp add: dev_reset_gpt_context_endpoint_def in_development_def)

lemma reset_present:
  assumes "in_development env" "active_rag_sessions st g = Some h"
  shows "dev_reset_gpt_context_endpoint env os eng st g =
     (case eng (clear_all_context h) of
        Some m \<Rightarrow> (reset_error m, popped st g h)
      | None \<Rightarrow>
          (case str_format os (LOCAL_KB_INDEX_PATH_TEMPLATE env) g of
             Inl m \<Rightarrow> (reset_error m, popped st g h)
           | Inr p \<Rightarrow>
               if os_path_exists os (local_fs st) p then
                 (case shutil_rmtree os (local_fs st) p of
                    Inl (m, left) \<Rightarrow> (reset_error m, (popped st g h)\<lparr>local_fs := left\<rparr>)
                  | Inr purged \<Rightarrow> (reset_success g, (popped st g h)\<lparr>local_fs := purged\<rparr>))
               else (reset_success g, popped st g h)))"
  using assms
  by (simp add: dev_reset_gpt_context_endpoint_def in_development_def call_engine_def Let_def
      popped_def split: option.splits sum.splits prod.splits)

lemma reset_present_common:
  assumes "in_development env" "active_rag_sessions st g = Some h"
  shows "active_rag_sessions (snd (dev_reset_gpt_context_endpoint env os eng st g))
           = (active_rag_sessions st)(g := None)"
    and "engine_calls (snd (dev_reset_gpt_context_endpoint env os eng st g))
           = engine_calls st @ [clear_all_context h]"
    and "heap (snd (dev_reset_gpt_context_endpoint env os eng st g)) = heap st"
    and "status_code (fst (dev_reset_gpt_context_endpoint env os eng st g)) = 200
         \<or> status_code (fst (dev_reset_gpt_context_endpoint env os eng st g)) = 500"
  by (simp_all add: reset_present[OF assms] popped_def reset_error_def reset_success_def
      split: option.splits sum.splits prod.splits)

lemma wf_initial_state: "wf_state initial_state"
  by (simp add: wf_state_def initial_state_def)

lemma wf_get_or_create:
  assumes "wf_state st"
  shows "wf_state (snd (get_or_create_rag_instance env st u g kn km kp kh))"
proof (cases "active_rag_sessions st g")
  case (Some h)
  with assms show ?thesis
    by (simp add: get_or_create_existing wf_state_def)
next
  case None
  show ?thesis
  proof (cases "configured env")
    case True
    from get_or_create_new[OF None True, of u kn km kp kh] assms show ?thesis
      by (auto simp: wf_state_def less_Suc_eq)
  next
    case False
    from get_or_create_unconfigured[OF None False, of u kn km kp kh] assms show ?thesis
      by auto
  qed
qed

lemma wf_dev_reset:
  assumes "wf_state st"
  shows "wf_state (snd (dev_reset_gpt_context_endpoint env os eng st g))"
proof (cases "in_development env")
  case False
  with assms show ?thesis by (simp add: reset_forbidden)
next
  case True
  show ?thesis
  proof (cases "active_rag_sessions st g")
    case None
    with True assms show ?thesis by (simp add: reset_absent)
  next
    case (Some h)
    from reset_present_common(1,3)[OF True Some, of os eng] assms show ?thesis
      by (auto simp: wf_state_def split: if_splits)
  qed
qed


lemma tenant_with_index_eq:
  "tenant_with_index =
     \<lparr> active_rag_sessions = [''g1'' \<mapsto> 0],
       heap = [\<lparr> gpt_id = ''g1'', openai_api_key = ''sk-test'', default_llm_model_name = ''gpt-4o'',
                 qdrant_url = ''http://qdrant:6333'', qdrant_api_key = None,
                 temp_processing_path = ''local_rag_data/temp_downloads'',
                 default_system_prompt = None, default_use_hybrid_search = Some True \<rparr>],
       engine_calls = [],
       local_fs = [''local_rag_data/kb_indexes/g1'' \<mapsto> Directory,
                   ''local_rag_data/kb_indexes/g1/index.faiss'' \<mapsto> RegularFile,
                   ''local_rag_data/kb_indexes/g2'' \<mapsto> Directory],
       stdout = [] \<rparr>"
  by (simp add: tenant_with_index_def tenant_with_hybrid_eq)

lemma example_paths [simp]:
  "LOCAL_KB_INDEX_PATH_TEMPLATE dev_env = ''local_rag_data/kb_indexes/{gpt_id}''"
  "str_format example_os ''local_rag_data/kb_indexes/{gpt_id}'' g
     = Inr (''local_rag_data/kb_indexes/'' @ g)"
  by (simp_all add: LOCAL_KB_INDEX_PATH_TEMPLATE_def LOCAL_DATA_BASE_PATH_def getenv_default_def
      dev_env_def example_env_def path_join_def example_os_def example_format_def)

lemma example_modes [simp]: "in_development dev_env" "\<not> in_development example_env"
  by (simp_all add: in_development_def dev_env_def example_env_def getenv_default_def
      lower_def lower_char_def)

text \<open>
  C9. A reset of a key that the registry does not hold fails with 404 and changes
  nothing; a reset of a key it holds removes the entry, calls \<open>clear_all_context\<close> on
  the handle and removes the local index directory, so that the next resolve of the
  key constructs a new handle.

  The endpoint first tests \<open>ENVIRONMENT_TYPE\<close>, whose default is \<open>production\<close>: outside
  development every reset is answered with 403 and nothing changes. In development,
  the teardown and the purge run inside a \<open>try\<close> whose handler answers 500: when the
  teardown raises, the entry is gone and the directory is still there; when
  \<open>shutil.rmtree\<close> raises, as it does on a path that is a regular file, the path is
  still there.
\<close>

theorem reset_without_removal_or_purge:
  "active_rag_sessions initial_state ''g1'' = None
   \<and> dev_reset_gpt_context_endpoint example_env example_os engine_ok initial_state ''g1''
       = (\<lparr> status_code = 403,
            content = JDict [(''error'', JStr ''Endpoint only available in development.'')] \<rparr>,
          initial_state)
   \<and> active_rag_sessions tenant_with_index ''g1'' = Some 0
   \<and> dev_reset_gpt_context_endpoint example_env example_os engine_ok tenant_with_index ''g1''
       = (\<lparr> status_code = 403,
            content = JDict [(''error'', JStr ''Endpoint only available in development.'')] \<rparr>,
          tenant_with_index)
   \<and> fst (dev_reset_gpt_context_endpoint dev_env example_os engine_down tenant_with_index ''g1'')
       = \<lparr> status_code = 500,
           content = JDict [(''status'', JStr ''error''),
                            (''message'', JStr ''qdrant unreachable'')] \<rparr>
   \<and> local_fs (snd (dev_reset_gpt_context_endpoint dev_env example_os engine_down
                       tenant_with_index ''g1'')) ''local_rag_data/kb_indexes/g1''
       = Some Directory
   \<and> active_rag_sessions tenant_with_index_file ''g1'' = Some 0
   \<and> local_fs tenant_with_index_file ''local_rag_data/kb_indexes/g1'' = Some RegularFile
   \<and> fst (dev_reset_gpt_context_endpoint dev_env example_os engine_ok tenant_with_index_file ''g1'')
       = \<lparr> status_code = 500,
           content = JDict
             [(''status'', JStr ''error''),
              (''message'', JStr (''[Errno 20] Not a directory: ''
                                   @ quoted ''local_rag_data/kb_indexes/g1''))] \<rparr>
   \<and> local_fs (snd (dev_reset_gpt_context_endpoint dev_env example_os engine_ok
                       tenant_with_index_file ''g1'')) ''local_rag_data/kb_indexes/g1''
       = Some RegularFile"
proof -
  have a: "dev_reset_gpt_context_endpoint example_env example_os engine_ok initial_state ''g1''
       = (\<lparr> status_code = 403,
            content = JDict [(''error'', JStr ''Endpoint only available in development.'')] \<rparr>,
          initial_state)"
    "dev_reset_gpt_context_endpoint example_env example_os engine_ok tenant_with_index ''g1''
       = (\<lparr> status_code = 403,
            content = JDict [(''error'', JStr ''Endpoint only available in development.'')] \<rparr>,
          tenant_with_index)"
    by (simp_all add: reset_forbidden)
  have p: "active_rag_sessions initial_state ''g1'' = None"
    "active_rag_sessions tenant_with_index ''g1'' = Some 0"
    "active_rag_sessions tenant_with_index_file ''g1'' = Some 0"
    "local_fs tenant_with_index_file ''local_rag_data/kb_indexes/g1'' = Some RegularFile"
    by (simp_all add: initial_state_def tenant_with_index_eq tenant_with_index_file_def
        tenant_with_hybrid_eq)
  have b: "fst (dev_reset_gpt_context_endpoint dev_env example_os engine_down tenant_with_index ''g1'')
       = \<lparr> status_code = 500,
           content = JDict [(''status'', JStr ''error''),
                            (''message'', JStr ''qdrant unreachable'')] \<rparr>"
    "local_fs (snd (dev_reset_gpt_context_endpoint dev_env example_os engine_down
                       tenant_with_index ''g1'')) ''local_rag_data/kb_indexes/g1''
       = Some Directory"
    unfolding reset_present[OF example_modes(1) p(2)]
    by (simp_all add: engine_down_def reset_error_def popped_def tenant_with_index_eq)
  have c: "fst (dev_reset_gpt_context_endpoint dev_env example_os engine_ok tenant_with_index_file ''g1'')
       = \<lparr> status_code = 500,
           content = JDict
             [(''status'', JStr ''error''),
              (''message'', JStr (''[Errno 20] Not a directory: ''
                                   @ quoted ''local_rag_data/kb_indexes/g1''))] \<rparr>"
    "local_fs (snd (dev_reset_gpt_context_endpoint dev_env example_os engine_ok
                       tenant_with_index_file ''g1'')) ''local_rag_data/kb_indexes/g1''
       = Some RegularFile"
    unfolding reset_present[OF example_modes(1) p(3)]
    by (simp_all add: engine_ok_def reset_error_def popped_def tenant_with_index_file_def
        tenant_with_hybrid_eq example_os_def example_rmtree_def example_format_def
        LOCAL_KB_INDEX_PATH_TEMPLATE_def LOCAL_DATA_BASE_PATH_def getenv_default_def
        dev_env_def example_env_def path_join_def)
  from a p b c show ?thesis by simp
qed

text \<open>
  C9, as amended. Outside development mode a reset is answered with 403 and changes
  nothing. In development mode: for a key that is not held the answer is 404 and
  nothing changes; for a key that is held the entry is removed and \<open>clear_all_context\<close>
  is called on its handle. When that call raises, the answer is 500 and the disk is
  left alone. When it returns, the path is formatted; if \<open>os.path.exists\<close> finds it,
  \<open>shutil.rmtree\<close> is called on it and the disk is what that call leaves; the answer
  is 200 when all of this returns and 500, with the text of the exception, when the
  formatting or the removal raises. With a \<open>shutil.rmtree\<close> that returns only when the
  path is gone, an answer of 200 means that the index path does not exist afterwards.
  In every case the next resolve of the key, with the configuration present, returns a
  reference that no earlier handle has.
\<close>

theorem reset_behaviour:
  "(\<not> in_development env \<longrightarrow>
      status_code (fst (dev_reset_gpt_context_endpoint env os eng st g)) = 403
      \<and> snd (dev_reset_gpt_context_endpoint env os eng st g) = st)
   \<and> (in_development env \<and> active_rag_sessions st g = None \<longrightarrow>
      status_code (fst (dev_reset_gpt_context_endpoint env os eng st g)) = 404
      \<and> snd (dev_reset_gpt_context_endpoint env os eng st g) = st)
   \<and> (\<forall>h. in_development env \<and> active_rag_sessions st g = Some h \<longrightarrow>
      active_rag_sessions (snd (dev_reset_gpt_context_endpoint env os eng st g))
         = (active_rag_sessions st)(g := None)
      \<and> engine_calls (snd (dev_reset_gpt_context_endpoint env os eng st g))
         = engine_calls st @ [clear_all_context h]
      \<and> heap (snd (dev_reset_gpt_context_endpoint env os eng st g)) = heap st
      \<and> (\<forall>m. eng (clear_all_context h) = Some m \<longrightarrow>
           fst (dev_reset_gpt_context_endpoint env os eng st g) = reset_error m
           \<and> local_fs (snd (dev_reset_gpt_context_endpoint env os eng st g)) = local_fs st)
      \<and> (eng (clear_all_context h) = None \<longrightarrow>
           (\<forall>m. str_format os (LOCAL_KB_INDEX_PATH_TEMPLATE env) g = Inl m \<longrightarrow>
              fst (dev_reset_gpt_context_endpoint env os eng st g) = reset_error m
              \<and> local_fs (snd (dev_reset_gpt_context_endpoint env os eng st g)) = local_fs st)
           \<and> (\<forall>p. str_format os (LOCAL_KB_INDEX_PATH_TEMPLATE env) g = Inr p \<longrightarrow>
                (\<not> os_path_exists os (local_fs st) p \<longrightarrow>
                   fst (dev_reset_gpt_context_endpoint env os eng st g) = reset_success g
                   \<and> local_fs (snd (dev_reset_gpt_context_endpoint env os eng st g)) = local_fs st)
                \<and> (os_path_exists os (local_fs st) p \<longrightarrow>
                     (\<forall>d. shutil_rmtree os (local_fs st) p = Inr d \<longrightarrow>
                        fst (dev_reset_gpt_context_endpoint env os eng st g) = reset_success g
                        \<and> local_fs (snd (dev_reset_gpt_context_endpoint env os eng st g)) = d)
                     \<and> (\<forall>m d. shutil_rmtree os (local_fs st) p = Inl (m, d) \<longrightarrow>
                          fst (dev_reset_gpt_context_endpoint env os eng st g) = reset_error m
                          \<and> local_fs (snd (dev_reset_gpt_context_endpoint env os eng st g)) = d))))
      \<and> ((\<forall>d p d'. shutil_rmtree os d p = Inr d' \<longrightarrow> \<not> os_path_exists os d' p) \<longrightarrow>
           status_code (fst (dev_reset_gpt_context_endpoint env os eng st g)) = 200 \<longrightarrow>
           (\<forall>p. str_format os (LOCAL_KB_INDEX_PATH_TEMPLATE env) g = Inr p \<longrightarrow>
              \<not> os_path_exists os (local_fs (snd (dev_reset_gpt_context_endpoint env os eng st g))) p))
      \<and> (wf_state st \<and> configured env \<longrightarrow>
           h < length (heap st)
           \<and> fst (get_or_create_rag_instance env
                    (snd (dev_reset_gpt_context_endpoint env os eng st g)) u g kn km kp kh)
               = Inr (length (heap st))))"
proof (intro conjI allI impI)
  assume "\<not> in_development env"
  then show "status_code (fst (dev_reset_gpt_context_endpoint env os eng st g)) = 403"
    "snd (dev_reset_gpt_context_endpoint env os eng st g) = st"
    by (simp_all add: reset_forbidden)
next
  assume "in_development env \<and> active_rag_sessions st g = None"
  then show "status_code (fst (dev_reset_gpt_context_endpoint env os eng st g)) = 404"
    "snd (dev_reset_gpt_context_endpoint env os eng st g) = st"
    by (simp_all add: reset_absent)
next
  fix h
  assume a: "in_development env \<and> active_rag_sessions st g = Some h"
  then have d: "in_development env" and p: "active_rag_sessions st g = Some h" by simp_all
  note c = reset_present_common[OF d p, of os eng]
  note r = reset_present[OF d p, of os eng]
  show "active_rag_sessions (snd (dev_reset_gpt_context_endpoint env os eng st g))
         = (active_rag_sessions st)(g := None)"
    "engine_calls (snd (dev_reset_gpt_context_endpoint env os eng st g))
         = engine_calls st @ [clear_all_context h]"
    "heap (snd (dev_reset_gpt_context_endpoint env os eng st g)) = heap st"
    by (rule c)+
  {
    fix m assume "eng (clear_all_context h) = Some m"
    then show "fst (dev_reset_gpt_context_endpoint env os eng st g) = reset_error m"
      "local_fs (snd (dev_reset_gpt_context_endpoint env os eng st g)) = local_fs st"
      by (simp_all add: r popped_def)
  }
  {
    assume ok: "eng (clear_all_context h) = None"
    {
      fix m assume "str_format os (LOCAL_KB_INDEX_PATH_TEMPLATE env) g = Inl m"
      with ok show "fst (dev_reset_gpt_context_endpoint env os eng st g) = reset_error m"
        "local_fs (snd (dev_reset_gpt_context_endpoint env os eng st g)) = local_fs st"
        by (simp_all add: r popped_def)
    }
    {
      fix q assume f: "str_format os (LOCAL_KB_INDEX_PATH_TEMPLATE env) g = Inr q"
      {
        assume "\<not> os_path_exists os (local_fs st) q"
        with ok f show "fst (dev_reset_gpt_context_endpoint env os eng st g) = reset_success g"
          "local_fs (snd (dev_reset_gpt_context_endpoint env os eng st g)) = local_fs st"
          by (simp_all add: r popped_def)
      }
      {
        assume e: "os_path_exists os (local_fs st) q"
        {
          fix dk assume "shutil_rmtree os (local_fs st) q = Inr dk"
          with ok f e show "fst (dev_reset_gpt_context_endpoint env os eng st g) = reset_success g"
            "local_fs (snd (dev_reset_gpt_context_endpoint env os eng st g)) = dk"
            by (simp_all add: r popped_def)
        }
        {
          fix m dk assume "shutil_rmtree os (local_fs st) q = Inl (m, dk)"
          with ok f e show "fst (dev_reset_gpt_context_endpoint env os eng st g) = reset_error m"
            "local_fs (snd (dev_reset_gpt_context_endpoint env os eng st g)) = dk"
            by (simp_all add: r popped_def)
        }
      }
    }
  }
  {
    fix q
    assume os: "\<forall>d p d'. shutil_rmtree os d p = Inr d' \<longrightarrow> \<not> os_path_exists os d' p"
      and s: "status_code (fst (dev_reset_gpt_context_endpoint env os eng st g)) = 200"
      and f: "str_format os (LOCAL_KB_INDEX_PATH_TEMPLATE env) g = Inr q"
    from s f os
    show "\<not> os_path_exists os (local_fs (snd (dev_reset_gpt_context_endpoint env os eng st g))) q"
      by (auto simp: r popped_def reset_error_def reset_success_def
          split: option.splits sum.splits prod.splits if_splits)
  }
  {
    assume w: "wf_state st \<and> configured env"
    with p show "h < length (heap st)" by (auto simp: wf_state_def)
    have "active_rag_sessions (snd (dev_reset_gpt_context_endpoint env os eng st g)) g = None"
      by (simp add: c(1))
    from get_or_create_new[OF this, of env u kn km kp kh] w c(3)
    show "fst (get_or_create_rag_instance env
                    (snd (dev_reset_gpt_context_endpoint env os eng st g)) u g kn km kp kh)
               = Inr (length (heap st))"
      by simp
  }
qed

theorem reset_behaviour_witness:
  "in_development dev_env \<and> \<not> in_development example_env \<and> configured dev_env
   \<and> wf_state tenant_with_index
   \<and> active_rag_sessions tenant_with_index ''g1'' = Some 0
   \<and> active_rag_sessions tenant_with_index ''g9'' = None
   \<and> engine_ok (clear_all_context 0) = None
   \<and> str_format example_os (LOCAL_KB_INDEX_PATH_TEMPLATE dev_env) ''g1''
       = Inr ''local_rag_data/kb_indexes/g1''
   \<and> os_path_exists example_os (local_fs tenant_with_index) ''local_rag_data/kb_indexes/g1''
   \<and> fst (dev_reset_gpt_context_endpoint dev_env example_os engine_ok tenant_with_index ''g1'')
       = reset_success ''g1''
   \<and> active_rag_sessions
        (snd (dev_reset_gpt_context_endpoint dev_env example_os engine_ok tenant_with_index ''g1''))
        ''g1'' = None
   \<and> engine_calls
        (snd (dev_reset_gpt_context_endpoint dev_env example_os engine_ok tenant_with_index ''g1''))
       = [clear_all_context 0]
   \<and> local_fs
        (snd (dev_reset_gpt_context_endpoint dev_env example_os engine_ok tenant_with_index ''g1''))
       = [''local_rag_data/kb_indexes/g2'' \<mapsto> Directory]
   \<and> fst (get_or_create_rag_instance dev_env
             (snd (dev_reset_gpt_context_endpoint dev_env example_os engine_ok tenant_with_index
                     ''g1''))
             ''a@b.c'' ''g1'' Omitted Omitted Omitted Omitted) = Inr 1
   \<and> status_code (fst (dev_reset_gpt_context_endpoint dev_env example_os engine_ok
                          tenant_with_index ''g9'')) = 404
   \<and> snd (dev_reset_gpt_context_endpoint dev_env example_os engine_ok tenant_with_index ''g9'')
       = tenant_with_index
   \<and> status_code (fst (dev_reset_gpt_context_endpoint example_env example_os engine_ok
                          tenant_with_index ''g1'')) = 403
   \<and> snd (dev_reset_gpt_context_endpoint example_env example_os engine_ok tenant_with_index ''g1'')
       = tenant_with_index"
proof -
  have c: "configured dev_env"
    by (simp add: configured_def dev_env_def example_env_def truthy_def getenv_def)
  have w: "wf_state tenant_with_index"
    by (auto simp: wf_state_def tenant_with_index_eq split: if_splits)
  have p: "active_rag_sessions tenant_with_index ''g1'' = Some 0"
    "active_rag_sessions tenant_with_index ''g9'' = None"
    "engine_calls tenant_with_index = []" "length (heap tenant_with_index) = 1"
    by (simp_all add: tenant_with_index_eq)
  have e: "engine_ok (clear_all_context 0) = None"
    by (simp add: engine_ok_def)
  have f: "str_format example_os (LOCAL_KB_INDEX_PATH_TEMPLATE dev_env) ''g1''
       = Inr ''local_rag_data/kb_indexes/g1''"
    by simp
  have x: "os_path_exists example_os (local_fs tenant_with_index) ''local_rag_data/kb_indexes/g1''"
    by (simp add: example_os_def tenant_with_index_eq)
  have r: "shutil_rmtree example_os (local_fs tenant_with_index) ''local_rag_data/kb_indexes/g1''
             = Inr [''local_rag_data/kb_indexes/g2'' \<mapsto> Directory]"
    by (auto simp: example_os_def example_rmtree_def tenant_with_index_eq fun_eq_iff)
  from reset_behaviour[of dev_env example_os engine_ok tenant_with_index "''g1''" "''a@b.c''"
      Omitted Omitted Omitted Omitted] c w p e f x r
  have a: "fst (dev_reset_gpt_context_endpoint dev_env example_os engine_ok tenant_with_index ''g1'')
       = reset_success ''g1''"
    "active_rag_sessions
        (snd (dev_reset_gpt_context_endpoint dev_env example_os engine_ok tenant_with_index ''g1''))
        ''g1'' = None"
    "engine_calls
        (snd (dev_reset_gpt_context_endpoint dev_env example_os engine_ok tenant_with_index ''g1''))
       = [clear_all_context 0]"
    "local_fs
        (snd (dev_reset_gpt_context_endpoint dev_env example_os engine_ok tenant_with_index ''g1''))
       = [''local_rag_data/kb_indexes/g2'' \<mapsto> Directory]"
    "fst (get_or_create_rag_instance dev_env
             (snd (dev_reset_gpt_context_endpoint dev_env example_os engine_ok tenant_with_index
                     ''g1''))
             ''a@b.c'' ''g1'' Omitted Omitted Omitted Omitted) = Inr 1"
    by simp_all
  from reset_behaviour[of dev_env example_os engine_ok tenant_with_index "''g9''"] p
  have b: "status_code (fst (dev_reset_gpt_context_endpoint dev_env example_os engine_ok
                          tenant_with_index ''g9'')) = 404"
    "snd (dev_reset_gpt_context_endpoint dev_env example_os engine_ok tenant_with_index ''g9'')
       = tenant_with_index"
    by simp_all
  from reset_behaviour[of example_env example_os engine_ok tenant_with_index "''g1''"]
  have d: "status_code (fst (dev_reset_gpt_context_endpoint example_env example_os engine_ok
                          tenant_with_index ''g1'')) = 403"
    "snd (dev_reset_gpt_context_endpoint example_env example_os engine_ok tenant_with_index ''g1'')
       = tenant_with_index"
    by simp_all
  from c w p(1,2) e f x a b d show ?thesis by simp
qed

end
